theory Spec2Isabelle
  imports Complex_Main
begin


section \<open>Numbers and vectors\<close>

text \<open>
  JavaScript numbers are modelled as exact reals: every statement below is about the
  arithmetic the code writes down, not about IEEE rounding.  \<open>vec3\<close> is the part of
  \<open>THREE.Vector3\<close> the repository calls; the operations follow the three.js methods of
  the same name, returning the new value instead of mutating the receiver.
\<close>

datatype vec3 = Vec3 (vx: real) (vy: real) (vz: real)

definition vadd :: "vec3 \<Rightarrow> vec3 \<Rightarrow> vec3" where
  "vadd a b = Vec3 (vx a + vx b) (vy a + vy b) (vz a + vz b)"

definition vsub :: "vec3 \<Rightarrow> vec3 \<Rightarrow> vec3" where
  "vsub a b = Vec3 (vx a - vx b) (vy a - vy b) (vz a - vz b)"

definition multiplyScalar :: "vec3 \<Rightarrow> real \<Rightarrow> vec3" where
  "multiplyScalar a k = Vec3 (vx a * k) (vy a * k) (vz a * k)"

definition vlength :: "vec3 \<Rightarrow> real" where
  "vlength a = sqrt (vx a * vx a + vy a * vy a + vz a * vz a)"

definition lerpVectors :: "vec3 \<Rightarrow> vec3 \<Rightarrow> real \<Rightarrow> vec3" where
  "lerpVectors v1 v2 alpha =
     Vec3 (vx v1 + (vx v2 - vx v1) * alpha)
          (vy v1 + (vy v2 - vy v1) * alpha)
          (vz v1 + (vz v2 - vz v1) * alpha)"

definition lerp :: "vec3 \<Rightarrow> vec3 \<Rightarrow> real \<Rightarrow> vec3" where
  "lerp a v alpha =
     Vec3 (vx a + (vx v - vx a) * alpha)
          (vy a + (vy v - vy a) * alpha)
          (vz a + (vz v - vz a) * alpha)"

section \<open>Planet (src/objects/Planet.js)\<close>

text \<open>
  The name of the central star, \<open>'\<dots>'\<close> in the source, is the Cyrillic word for Sun; it
  is kept as its UTF-8 bytes.
\<close>

definition sun_name :: string where
  "sun_name = [CHR 0xD0, CHR 0xA1, CHR 0xD0, CHR 0xBE, CHR 0xD0, CHR 0xBB,
               CHR 0xD0, CHR 0xBD, CHR 0xD1, CHR 0x86, CHR 0xD0, CHR 0xB5]"

record orbit_desc =
  radius :: real
  speed :: real

record orbit_line =
  line_color :: nat
  line_opacity :: real

record ring =
  ring_rotation_z :: real
  rotationSpeed :: real

text \<open>
  The fields of a \<open>Planet\<close> that \<open>update\<close> and \<open>setSelected\<close> read or write.  \<open>mesh\<close> is
  the identity of the planet's \<open>THREE.Mesh\<close> and \<open>selectionGlow\<close> that of the glow sphere
  \<open>createSelectionGlow\<close> adds to the mesh as a child; \<open>orbit\<close>, \<open>rings\<close> and \<open>orbitLine\<close> are
  \<open>None\<close> where the source holds \<open>undefined\<close> or \<open>null\<close>.
\<close>

record planet =
  name :: string
  rotation :: vec3
  orbit :: "orbit_desc option"
  isSelected :: bool
  originalScale :: real
  mesh :: nat
  selectionGlow :: nat
  mesh_rotation :: vec3
  mesh_scale :: real
  emissiveIntensity :: real
  glow_opacity :: real
  orbitLine :: "orbit_line option"
  rings :: "ring option"
  orbitGroup_position :: vec3
  group_position :: vec3
  time :: real

definition updateSunEffects :: "planet \<Rightarrow> planet" where
  "updateSunEffects p =
     (let pulsation = 0.8 + sin (time p * 3) * 0.2;
          p1 = p\<lparr>emissiveIntensity := pulsation\<rparr>;
          scale = 1 + sin (time p1 * 2) * 0.05
      in p1\<lparr>mesh_scale := scale\<rparr>)"

definition Planet_update :: "real \<Rightarrow> real \<Rightarrow> planet \<Rightarrow> planet" where
  "Planet_update deltaTime totalTime p =
     (let p1 = p\<lparr>time := totalTime\<rparr>;
          p2 = p1\<lparr>mesh_rotation :=
                 Vec3 (vx (mesh_rotation p1) + vx (rotation p1) * deltaTime)
                      (vy (mesh_rotation p1) + vy (rotation p1) * deltaTime)
                      (vz (mesh_rotation p1) + vz (rotation p1) * deltaTime)\<rparr>;
          p3 = (case orbit p2 of
                  Some ob \<Rightarrow>
                    (let angle = totalTime * speed ob;
                         x = cos angle * radius ob;
                         z = sin angle * radius ob
                     in p2\<lparr>orbitGroup_position := Vec3 x 0 z\<rparr>)
                | None \<Rightarrow> p2);
          p4 = (case rings p3 of
                  Some rg \<Rightarrow>
                    p3\<lparr>rings := Some (rg\<lparr>ring_rotation_z :=
                                   ring_rotation_z rg + rotationSpeed rg * deltaTime\<rparr>)\<rparr>
                | None \<Rightarrow> p3)
      in if name p4 = sun_name then updateSunEffects p4 else p4)"

definition setSelected :: "bool \<Rightarrow> planet \<Rightarrow> planet" where
  "setSelected selected p =
     (let p1 = p\<lparr>isSelected := selected\<rparr>
      in if selected
         then (let p2 = p1\<lparr>mesh_scale := 1.1\<rparr>;
                   p3 = p2\<lparr>glow_opacity := 0.3\<rparr>
               in case orbitLine p3 of
                    Some l \<Rightarrow> p3\<lparr>orbitLine := Some (l\<lparr>line_color := 0x00ffff, line_opacity := 0.8\<rparr>)\<rparr>
                  | None \<Rightarrow> p3)
         else (let p2 = p1\<lparr>mesh_scale := originalScale p1\<rparr>;
                   p3 = p2\<lparr>glow_opacity := 0\<rparr>
               in case orbitLine p3 of
                    Some l \<Rightarrow> p3\<lparr>orbitLine := Some (l\<lparr>line_color := 0x444444, line_opacity := 0.3\<rparr>)\<rparr>
                  | None \<Rightarrow> p3))"

section \<open>SpaceScene: simulation time and picking (src/scene/SpaceScene.js)\<close>

text \<open>
  A planet is referred to by its index in \<open>planets\<close> (the array only grows, at scene
  construction).  \<open>camera_set\<close> says whether \<open>setCamera\<close> has run; \<open>infoPanel\<close> is the planet
  whose panel is shown.  \<open>selection_calls\<close> records, in call order, every
  \<open>planet.setSelected(flag)\<close> the scene makes; the source has no such field, it is kept
  to state in which order the calls happen.  The star field, the ship and the lights, which
  \<open>update\<close> also advances, do not touch the planets and are left out.
\<close>

record scene =
  planets :: "planet list"
  scene_time :: real
  camera_set :: bool
  mouse :: "real \<times> real"
  selectedPlanet :: "nat option"
  infoPanel :: "nat option"
  selection_calls :: "(nat \<times> bool) list"

definition SpaceScene_update :: "real \<Rightarrow> scene \<Rightarrow> scene" where
  "SpaceScene_update deltaTime sc =
     (let sc1 = sc\<lparr>scene_time := scene_time sc + deltaTime\<rparr>
      in sc1\<lparr>planets := map (Planet_update deltaTime (scene_time sc1)) (planets sc1)\<rparr>)"

text \<open>The logic steps of a run, one \<open>update\<close> per step, in order.\<close>

definition run_updates :: "real list \<Rightarrow> scene \<Rightarrow> scene" where
  "run_updates ds sc = fold SpaceScene_update ds sc"

definition setCamera :: "scene \<Rightarrow> scene" where
  "setCamera sc = sc\<lparr>camera_set := True\<rparr>"

definition hidePlanetInfo :: "scene \<Rightarrow> scene" where
  "hidePlanetInfo sc = sc\<lparr>infoPanel := None\<rparr>"

definition showPlanetInfo :: "nat \<Rightarrow> scene \<Rightarrow> scene" where
  "showPlanetInfo i sc = sc\<lparr>infoPanel := Some i\<rparr>"

definition call_setSelected :: "nat \<Rightarrow> bool \<Rightarrow> scene \<Rightarrow> scene" where
  "call_setSelected i flag sc =
     sc\<lparr>planets := (planets sc)[i := setSelected flag (planets sc ! i)],
        selection_calls := selection_calls sc @ [(i, flag)]\<rparr>"

definition deselectPlanet :: "scene \<Rightarrow> scene" where
  "deselectPlanet sc =
     hidePlanetInfo
       (case selectedPlanet sc of
          Some i \<Rightarrow> (call_setSelected i False sc)\<lparr>selectedPlanet := None\<rparr>
        | None \<Rightarrow> sc)"

definition selectPlanet :: "nat \<Rightarrow> scene \<Rightarrow> scene" where
  "selectPlanet i sc =
     (let sc1 = deselectPlanet sc;
          sc2 = sc1\<lparr>selectedPlanet := Some i\<rparr>;
          sc3 = call_setSelected i True sc2
      in showPlanetInfo i sc3)"

text \<open>
  \<open>Raycaster.intersectObjects\<close> is three.js code.  It is a parameter here: from the
  pointer's normalized device coordinate and the meshes to test it returns the hits, nearest
  first, each with its distance and the object hit.  The object of a hit need not be one of
  the meshes passed in: \<open>createPlanet\<close> attaches a glow sphere (and for three planets an
  atmosphere sphere) as children of the planet's mesh, and the source itself checks
  whether a planet was found for the nearest hit.
\<close>

record hit =
  distance :: real
  object :: nat

type_synonym raycaster = "real \<times> real \<Rightarrow> nat list \<Rightarrow> hit list"

definition find_planet :: "nat \<Rightarrow> planet list \<Rightarrow> nat option" where
  "find_planet obj ps = List.find (\<lambda>i. mesh (ps ! i) = obj) [0..<length ps]"

definition ndc :: "real \<times> real \<Rightarrow> real \<times> real \<Rightarrow> real \<times> real" where
  "ndc client inner =
     ((fst client / fst inner) * 2 - 1, - (snd client / snd inner) * 2 + 1)"

definition onMouseClick :: "raycaster \<Rightarrow> real \<times> real \<Rightarrow> real \<times> real \<Rightarrow> scene \<Rightarrow> scene" where
  "onMouseClick intersectObjects client inner sc =
     (if \<not> camera_set sc then sc
      else
        (let sc1 = sc\<lparr>mouse := ndc client inner\<rparr>;
             planetMeshes = map mesh (planets sc1);
             intersects = intersectObjects (mouse sc1) planetMeshes
         in case intersects of
              h # _ \<Rightarrow>
                (case find_planet (object h) (planets sc1) of
                   Some clickedPlanet \<Rightarrow> selectPlanet clickedPlanet sc1
                 | None \<Rightarrow> sc1)
            | [] \<Rightarrow> deselectPlanet sc1))"

definition onMouseMove :: "real \<times> real \<Rightarrow> real \<times> real \<Rightarrow> scene \<Rightarrow> scene" where
  "onMouseMove client inner sc = sc\<lparr>mouse := ndc client inner\<rparr>"

text \<open>The planets whose \<open>isSelected\<close> flag is up.\<close>

definition selected_planets :: "scene \<Rightarrow> nat set" where
  "selected_planets sc = {i. i < length (planets sc) \<and> isSelected (planets sc ! i)}"

text \<open>
  What holds of the selection in every state the scene reaches: the planet the scene
  points at exists, and no other planet has its flag up.
\<close>

definition selection_ok :: "scene \<Rightarrow> bool" where
  "selection_ok sc \<longleftrightarrow>
     (case selectedPlanet sc of
        Some i \<Rightarrow> i < length (planets sc) \<and> selected_planets sc \<subseteq> {i}
      | None \<Rightarrow> selected_planets sc = {})"

section \<open>GameLoop (src/core/GameLoop.js)\<close>

text \<open>
  The two callbacks act on a world \<open>'w\<close> the loop itself never inspects.  Times are in
  milliseconds.
\<close>

record 'w gameloop =
  isRunning :: bool
  lastTime :: real
  targetFPS :: real
  frameTime :: real
  accumulator :: real
  currentTime :: real
  updateCallback :: "(real \<Rightarrow> 'w \<Rightarrow> 'w) option"
  renderCallback :: "('w \<Rightarrow> 'w) option"

definition GameLoop :: "'w gameloop" where
  "GameLoop =
     \<lparr>isRunning = False, lastTime = 0, targetFPS = 60, frameTime = 1000 / 60,
      accumulator = 0, currentTime = 0, updateCallback = None, renderCallback = None\<rparr>"

definition start :: "real \<Rightarrow> (real \<Rightarrow> 'w \<Rightarrow> 'w) option \<Rightarrow> ('w \<Rightarrow> 'w) option \<Rightarrow> 'w gameloop \<Rightarrow> 'w gameloop" where
  "start now ucb rcb g =
     (if isRunning g then g
      else g\<lparr>updateCallback := ucb, renderCallback := rcb, isRunning := True, lastTime := now\<rparr>)"

definition stop :: "'w gameloop \<Rightarrow> 'w gameloop" where
  "stop g = g\<lparr>isRunning := False\<rparr>"

definition setTargetFPS :: "real \<Rightarrow> 'w gameloop \<Rightarrow> 'w gameloop" where
  "setTargetFPS fps g = (let g1 = g\<lparr>targetFPS := fps\<rparr> in g1\<lparr>frameTime := 1000 / targetFPS g1\<rparr>)"

text \<open>
  The \<open>while\<close> of \<open>loop\<close>.  It runs forever when \<open>frameTime\<close> is not positive and the
  accumulator is not below it, so its result is an option: \<open>None\<close> is a loop that does not
  return.
\<close>

partial_function (option) fixed_steps :: "'w gameloop \<Rightarrow> 'w \<Rightarrow> ('w gameloop \<times> 'w) option" where
  "fixed_steps g w =
     (if accumulator g \<ge> frameTime g
      then fixed_steps (g\<lparr>accumulator := accumulator g - frameTime g\<rparr>)
             (case updateCallback g of Some f \<Rightarrow> f (frameTime g / 1000) w | None \<Rightarrow> w)
      else Some (g, w))"

definition loop :: "real \<Rightarrow> 'w gameloop \<times> 'w \<Rightarrow> ('w gameloop \<times> 'w) option" where
  "loop timestamp gw =
     (let g = fst gw; w = snd gw in
      if \<not> isRunning g then Some (g, w)
      else
        (let g1 = g\<lparr>currentTime := timestamp\<rparr>;
             deltaTime = currentTime g1 - lastTime g1;
             g2 = g1\<lparr>lastTime := currentTime g1\<rparr>;
             deltaTime' = min deltaTime 50;
             g3 = g2\<lparr>accumulator := accumulator g2 + deltaTime'\<rparr>
         in case fixed_steps g3 w of
              None \<Rightarrow> None
            | Some (g4, w4) \<Rightarrow>
                Some (g4, case renderCallback g4 of Some r \<Rightarrow> r w4 | None \<Rightarrow> w4)))"

text \<open>
  A run of the loop: one call per animation frame, with the frame's timestamp.
  \<open>timestamps t0 ds\<close> are the timestamps whose successive differences, starting from \<open>t0\<close>,
  are the raw deltas \<open>ds\<close>.
\<close>

fun run_loop :: "real list \<Rightarrow> 'w gameloop \<times> 'w \<Rightarrow> ('w gameloop \<times> 'w) option" where
  "run_loop [] gw = Some gw"
| "run_loop (t # ts) gw = (case loop t gw of None \<Rightarrow> None | Some gw' \<Rightarrow> run_loop ts gw')"

fun timestamps :: "real \<Rightarrow> real list \<Rightarrow> real list" where
  "timestamps t0 [] = []"
| "timestamps t0 (d # ds) = (t0 + d) # timestamps (t0 + d) ds"

text \<open>
  Callbacks that count: the world is the pair of the number of logic updates and the
  number of renders so far.
\<close>

definition count_update :: "real \<Rightarrow> nat \<times> nat \<Rightarrow> nat \<times> nat" where
  "count_update dt w = (Suc (fst w), snd w)"

definition count_render :: "nat \<times> nat \<Rightarrow> nat \<times> nat" where
  "count_render w = (fst w, Suc (snd w))"

definition counting :: "(nat \<times> nat) gameloop \<Rightarrow> bool" where
  "counting g \<longleftrightarrow> updateCallback g = Some count_update \<and> renderCallback g = Some count_render"

text \<open>The number of logic updates a run makes, when it returns.\<close>

definition updates_made :: "real list \<Rightarrow> (nat \<times> nat) gameloop \<Rightarrow> nat option" where
  "updates_made ts g = map_option (\<lambda>gw. fst (snd gw)) (run_loop ts (g, (0, 0)))"

text \<open>
  What a running, counting loop keeps between frames: the step is \<open>h\<close>, the last
  timestamp seen is \<open>t\<close>, and the residual is at least zero and below one step.
\<close>

definition between_frames :: "real \<Rightarrow> real \<Rightarrow> (nat \<times> nat) gameloop \<Rightarrow> bool" where
  "between_frames h t g \<longleftrightarrow>
     isRunning g \<and> counting g \<and> frameTime g = h \<and> lastTime g = t \<and>
     0 \<le> accumulator g \<and> accumulator g < h"

section \<open>InputManager (src/managers/InputManager.js)\<close>

text \<open>
  Only the set of held key codes matters to the camera.  \<open>getWASDState\<close> returns a
  JavaScript object; it is modelled as the finite map from its property names to their
  values, so that reading a property the object does not have gives \<open>None\<close>
  (\<open>undefined\<close>), which is falsy.
\<close>

record input_manager =
  keys :: "string set"

definition isKeyPressed :: "input_manager \<Rightarrow> string \<Rightarrow> bool" where
  "isKeyPressed m keyCode \<longleftrightarrow> keyCode \<in> keys m"

definition getWASDState :: "input_manager \<Rightarrow> string \<rightharpoonup> bool" where
  "getWASDState m =
     map_of [(''w'', isKeyPressed m ''KeyW''),
             (''a'', isKeyPressed m ''KeyA''),
             (''s'', isKeyPressed m ''KeyS''),
             (''d'', isKeyPressed m ''KeyD'')]"

definition truthy :: "bool option \<Rightarrow> bool" where
  "truthy v \<longleftrightarrow> v = Some True"

section \<open>CameraController (src/controllers/CameraController.js)\<close>

datatype quat = Quat (qx: real) (qy: real) (qz: real) (qw: real)

text \<open>\<open>Vector3.applyQuaternion\<close> of three.js: the vector rotated by the quaternion.\<close>

definition applyQuaternion :: "vec3 \<Rightarrow> quat \<Rightarrow> vec3" where
  "applyQuaternion v q =
     (let tx = 2 * (qy q * vz v - qz q * vy v);
          ty = 2 * (qz q * vx v - qx q * vz v);
          tz = 2 * (qx q * vy v - qy q * vx v)
      in Vec3 (vx v + qw q * tx + qy q * tz - qz q * ty)
              (vy v + qw q * ty + qz q * tx - qx q * tz)
              (vz v + qw q * tz + qx q * ty - qy q * tx))"

text \<open>
  Normalizing divides by the length.  Dividing by a zero length is the fault the
  controller has to stay clear of, so \<open>normalize\<close> is partial: \<open>None\<close> on a vector of
  length zero.  (three.js itself divides by \<open>length() || 1\<close>; the model is the stricter
  reading, in which a zero length must never reach the division.)
\<close>

datatype fault = NormalizeByZero

definition normalize :: "vec3 \<Rightarrow> vec3 option" where
  "normalize v = (if vlength v = 0 then None else Some (multiplyScalar v (1 / vlength v)))"

datatype log_event =
    Log_mode string
  | Log_wasd bool
  | Warn_preset_not_found string
  | Log_follow_started nat
  | Log_follow_stopped
  | Log_preset_added string

text \<open>
  The state of a promise when the call that made it returns.  A promise of an \<open>async\<close>
  function is rejected when the body throws.
\<close>

datatype promise = Resolved | Pending | Rejected

record preset =
  position :: vec3
  target :: vec3

text \<open>
  What the closure \<open>animate\<close> of \<open>animateToPosition\<close> captures.  While a frame callback
  is scheduled the controller's \<open>animation\<close> holds it; \<open>None\<close> means no callback is
  scheduled.
\<close>

record transition =
  startPosition :: vec3
  startTarget :: vec3
  targetPosition :: vec3
  targetLookAt :: vec3
  startTime :: real

text \<open>
  The controller with the parts of the camera and of the \<open>OrbitControls\<close> it reads and
  writes.  A follow target is the identity of a scene object.  \<open>console\<close> is what the
  controller has printed.
\<close>

record controller =
  camera_position :: vec3
  camera_quaternion :: quat
  oc_target :: vec3
  oc_enabled :: bool
  wasdEnabled :: bool
  moveSpeed :: real
  fastMoveMultiplier :: real
  direction :: vec3
  presets :: "string \<rightharpoonup> preset"
  isAnimating :: bool
  animationDuration :: real
  followTarget :: "nat option"
  followOffset :: vec3
  followSpeed :: real
  controlMode :: string
  animation :: "transition option"
  console :: "log_event list"

text \<open>
  \<open>presets\<close> is a plain JavaScript object.  The field holds what the object itself
  stores, name by name; \<open>initial_presets\<close> is the object literal of the constructor.  A read
  \<open>this.presets[name]\<close> is \<open>presets_get\<close>: it finds what is stored under the name and,
  failing that, what the object inherits.  Every object literal inherits the members of
  \<open>Object.prototype\<close>, whose names are \<open>object_prototype_keys\<close>; all of them are truthy and
  none has a \<open>position\<close>.  Writing \<open>this.presets['__proto__'] = {position, target}\<close>, as
  \<open>addPreset\<close> does for that name, does not store a property but makes the new object the
  prototype: from then on the name \<open>__proto__\<close> reads as that object, which is why the map
  may hold it like any other preset, and the names \<open>position\<close> and \<open>target\<close> are inherited
  from it (two arrays, truthy, without a \<open>position\<close> of their own).
\<close>

datatype 'a js_value = Undefined | Inherited | Own 'a

definition object_prototype_keys :: "string set" where
  "object_prototype_keys =
     {''constructor'', ''__proto__'', ''hasOwnProperty'', ''isPrototypeOf'',
      ''propertyIsEnumerable'', ''toLocaleString'', ''toString'', ''valueOf'',
      ''__defineGetter__'', ''__defineSetter__'', ''__lookupGetter__'', ''__lookupSetter__''}"

definition presets_get :: "(string \<rightharpoonup> preset) \<Rightarrow> string \<Rightarrow> preset js_value" where
  "presets_get ps nm =
     (case ps nm of
        Some p \<Rightarrow> Own p
      | None \<Rightarrow>
          if nm \<in> object_prototype_keys \<or>
             (ps ''__proto__'' \<noteq> None \<and> nm \<in> {''position'', ''target''})
          then Inherited else Undefined)"

definition initial_presets :: "string \<rightharpoonup> preset" where
  "initial_presets =
     map_of [(''overview'', \<lparr>position = Vec3 0 100 200, target = Vec3 0 0 0\<rparr>),
             (''sun'', \<lparr>position = Vec3 0 20 50, target = Vec3 0 0 0\<rparr>),
             (''earth'', \<lparr>position = Vec3 45 10 20, target = Vec3 45 0 0\<rparr>),
             (''saturn'', \<lparr>position = Vec3 110 30 60, target = Vec3 110 0 0\<rparr>)]"

text \<open>The constructor, given the camera's pose and the orbit controls' target.\<close>

definition CameraController :: "vec3 \<Rightarrow> quat \<Rightarrow> vec3 \<Rightarrow> controller" where
  "CameraController pos q tgt =
     \<lparr>camera_position = pos, camera_quaternion = q, oc_target = tgt, oc_enabled = True,
      wasdEnabled = True, moveSpeed = 50, fastMoveMultiplier = 3, direction = Vec3 0 0 0,
      presets = initial_presets, isAnimating = False, animationDuration = 2000,
      followTarget = None, followOffset = Vec3 10 10 10, followSpeed = 0.02,
      controlMode = ''orbit'', animation = None, console = []\<rparr>"

text \<open>
  \<open>OrbitControls.update\<close> is three.js code that re-derives the camera's pose around the
  target.  It is a parameter of every function that calls it: a map from the pair (camera
  position, target) to the pair it leaves.
\<close>

type_synonym orbit_update = "vec3 \<times> vec3 \<Rightarrow> vec3 \<times> vec3"

definition orbitControls_update :: "orbit_update \<Rightarrow> controller \<Rightarrow> controller" where
  "orbitControls_update ocu s =
     (let r = ocu (camera_position s, oc_target s)
      in s\<lparr>camera_position := fst r, oc_target := snd r\<rparr>)"

definition setControlMode :: "string \<Rightarrow> controller \<Rightarrow> controller" where
  "setControlMode mode s =
     (let s1 = s\<lparr>controlMode := mode\<rparr>;
          s2 = (if mode = ''free'' then s1\<lparr>oc_enabled := False\<rparr> else s1\<lparr>oc_enabled := True\<rparr>)
      in s2\<lparr>console := console s2 @ [Log_mode mode]\<rparr>)"

definition setWASDEnabled :: "bool \<Rightarrow> controller \<Rightarrow> controller" where
  "setWASDEnabled enabled s =
     (let s1 = s\<lparr>wasdEnabled := enabled\<rparr> in s1\<lparr>console := console s1 @ [Log_wasd enabled]\<rparr>)"

definition setMoveSpeed :: "real \<Rightarrow> controller \<Rightarrow> controller" where
  "setMoveSpeed v s = s\<lparr>moveSpeed := v\<rparr>"

text \<open>The key codes the free-fly step is meant to read a direction from.\<close>

definition direction_keys :: "string set" where
  "direction_keys = {''KeyW'', ''KeyA'', ''KeyS'', ''KeyD'', ''Space'', ''ControlLeft'', ''ControlRight''}"

text \<open>
  Lines 101 to 126 of \<open>updateWASDMovement\<close>: the direction composed from the held keys,
  in the camera's frame.
\<close>

definition composeDirection :: "input_manager \<Rightarrow> quat \<Rightarrow> vec3" where
  "composeDirection m q =
     (let wasdState = getWASDState m;
          isSpacePressed = isKeyPressed m ''Space'';
          isCtrlPressed = isKeyPressed m ''ControlLeft'' \<or> isKeyPressed m ''ControlRight'';
          forward = applyQuaternion (Vec3 0 0 (- 1)) q;
          right = applyQuaternion (Vec3 1 0 0) q;
          up = Vec3 0 1 0;
          d0 = Vec3 0 0 0;
          d1 = (if truthy (wasdState ''forward'') then vadd d0 forward else d0);
          d2 = (if truthy (wasdState ''backward'') then vsub d1 forward else d1);
          d3 = (if truthy (wasdState ''left'') then vsub d2 right else d2);
          d4 = (if truthy (wasdState ''right'') then vadd d3 right else d3);
          d5 = (if isSpacePressed then vadd d4 up else d4);
          d6 = (if isCtrlPressed then vsub d5 up else d5)
      in d6)"

definition updateWASDMovement :: "input_manager option \<Rightarrow> real \<Rightarrow> controller \<Rightarrow> fault + controller" where
  "updateWASDMovement inputManager deltaTime s =
     (case inputManager of
        None \<Rightarrow> Inr s
      | Some m \<Rightarrow>
          (let isShiftPressed = isKeyPressed m ''ShiftLeft'' \<or> isKeyPressed m ''ShiftRight'';
               s1 = s\<lparr>direction := composeDirection m (camera_quaternion s)\<rparr>
           in if vlength (direction s1) > 0
              then (case normalize (direction s1) of
                      None \<Rightarrow> Inl NormalizeByZero
                    | Some n \<Rightarrow>
                        (let s2 = s1\<lparr>direction := n\<rparr>;
                             currentSpeed = (if isShiftPressed
                                             then moveSpeed s2 * fastMoveMultiplier s2
                                             else moveSpeed s2);
                             movement = multiplyScalar (direction s2) (currentSpeed * deltaTime);
                             s3 = s2\<lparr>camera_position := vadd (camera_position s2) movement\<rparr>
                         in Inr (if controlMode s3 = ''orbit''
                                 then s3\<lparr>oc_target := vadd (oc_target s3) movement\<rparr>
                                 else s3)))
              else Inr s1))"

definition easeInOutCubic :: "real \<Rightarrow> real" where
  "easeInOutCubic t = (if t < 0.5 then 4 * t * t * t else (t - 1) * (2 * t - 2) * (2 * t - 2) + 1)"

definition stopFollowing :: "controller \<Rightarrow> controller" where
  "stopFollowing s =
     (if followTarget s \<noteq> None
      then (s\<lparr>console := console s @ [Log_follow_stopped]\<rparr>)\<lparr>followTarget := None\<rparr>
      else s)"

text \<open>
  One run of the frame callback \<open>animate\<close>, at the clock reading \<open>now\<close>.  When no callback
  is scheduled nothing runs.  The promise of the transition resolves in the very run that
  lowers \<open>isAnimating\<close>.  \<open>animationDuration\<close> is 2000 from the constructor and no method
  changes it; the quotient below is the program's only for a duration other than zero, and
  every statement about \<open>animate\<close> assumes a positive one.
\<close>

definition animate :: "orbit_update \<Rightarrow> real \<Rightarrow> controller \<Rightarrow> controller" where
  "animate ocu now s =
     (case animation s of
        None \<Rightarrow> s
      | Some tr \<Rightarrow>
          (let elapsed = now - startTime tr;
               progress = min (elapsed / animationDuration s) 1;
               easeProgress = easeInOutCubic progress;
               s1 = s\<lparr>camera_position :=
                       lerpVectors (startPosition tr) (targetPosition tr) easeProgress\<rparr>;
               s2 = s1\<lparr>oc_target :=
                       lerpVectors (startTarget tr) (targetLookAt tr) easeProgress\<rparr>;
               s3 = orbitControls_update ocu s2
           in if progress < 1 then s3
              else s3\<lparr>isAnimating := False, animation := None\<rparr>))"

text \<open>
  \<open>animateToPosition\<close> reads the clock twice: \<open>now0\<close> is the reading kept as the start
  time, \<open>now1\<close> the reading of the first run of \<open>animate\<close>, made before the call returns.
  The result is the state of the promise when the call returns, and the new controller.
\<close>

definition animateToPosition ::
  "orbit_update \<Rightarrow> real \<Rightarrow> real \<Rightarrow> vec3 \<Rightarrow> vec3 \<Rightarrow> controller \<Rightarrow> promise \<times> controller" where
  "animateToPosition ocu now0 now1 targetPosition' targetLookAt' s =
     (if isAnimating s then (Resolved, s)
      else
        (let s1 = s\<lparr>isAnimating := True\<rparr>;
             s2 = stopFollowing s1;
             tr = \<lparr>startPosition = camera_position s2, startTarget = oc_target s2,
                   targetPosition = targetPosition', targetLookAt = targetLookAt',
                   startTime = now0\<rparr>;
             s3 = animate ocu now1 (s2\<lparr>animation := Some tr\<rparr>)
         in (if isAnimating s3 then Pending else Resolved, s3)))"

text \<open>
  The controller on which the first run of \<open>animate\<close> works when a transition starts:
  the flag raised, following stopped, the closure scheduled.
\<close>

definition started :: "real \<Rightarrow> vec3 \<Rightarrow> vec3 \<Rightarrow> controller \<Rightarrow> controller" where
  "started now0 P T s =
     (stopFollowing (s\<lparr>isAnimating := True\<rparr>))
       \<lparr>animation := Some \<lparr>startPosition = camera_position s, startTarget = oc_target s,
                            targetPosition = P, targetLookAt = T, startTime = now0\<rparr>\<rparr>"

text \<open>
  \<open>animateToPreset\<close> is \<open>async\<close>.  When the name reads as \<open>undefined\<close> it warns and
  returns.  When it reads as an inherited member, \<open>!preset\<close> is false, and evaluating the
  argument \<open>new THREE.Vector3(...preset.position)\<close> spreads \<open>undefined\<close>: a \<open>TypeError\<close> is
  thrown before \<open>animateToPosition\<close> is called, nothing is printed, and the promise is
  rejected.
\<close>

definition animateToPreset ::
  "orbit_update \<Rightarrow> real \<Rightarrow> real \<Rightarrow> string \<Rightarrow> controller \<Rightarrow> promise \<times> controller" where
  "animateToPreset ocu now0 now1 presetName s =
     (case presets_get (presets s) presetName of
        Undefined \<Rightarrow> (Resolved, s\<lparr>console := console s @ [Warn_preset_not_found presetName]\<rparr>)
      | Inherited \<Rightarrow> (Rejected, s)
      | Own preset \<Rightarrow> animateToPosition ocu now0 now1 (position preset) (target preset) s)"

definition followObject :: "nat \<Rightarrow> vec3 option \<Rightarrow> controller \<Rightarrow> controller" where
  "followObject tgt offset s =
     (let s1 = s\<lparr>followTarget := Some tgt\<rparr>;
          s2 = (case offset of Some v \<Rightarrow> s1\<lparr>followOffset := v\<rparr> | None \<Rightarrow> s1)
      in s2\<lparr>console := console s2 @ [Log_follow_started tgt]\<rparr>)"

text \<open>\<open>worldPosition\<close> gives the current world position of a scene object.\<close>

definition updateFollowTarget :: "orbit_update \<Rightarrow> (nat \<Rightarrow> vec3) \<Rightarrow> controller \<Rightarrow> controller" where
  "updateFollowTarget ocu worldPosition s =
     (case followTarget s of
        None \<Rightarrow> s
      | Some tgt \<Rightarrow>
          (let targetWorldPosition = worldPosition tgt;
               desiredPosition = vadd targetWorldPosition (followOffset s);
               s1 = s\<lparr>camera_position := lerp (camera_position s) desiredPosition (followSpeed s)\<rparr>;
               s2 = s1\<lparr>oc_target := lerp (oc_target s1) targetWorldPosition (followSpeed s1)\<rparr>
           in orbitControls_update ocu s2))"

definition setFollowSpeed :: "real \<Rightarrow> controller \<Rightarrow> controller" where
  "setFollowSpeed v s = s\<lparr>followSpeed := max 0 (min 1 v)\<rparr>"

definition addPreset :: "string \<Rightarrow> vec3 \<Rightarrow> vec3 \<Rightarrow> controller \<Rightarrow> controller" where
  "addPreset nm pos tgt s =
     (let s1 = s\<lparr>presets := (presets s)(nm \<mapsto> \<lparr>position = pos, target = tgt\<rparr>)\<rparr>
      in s1\<lparr>console := console s1 @ [Log_preset_added nm]\<rparr>)"

definition saveCurrentAsPreset :: "string \<Rightarrow> controller \<Rightarrow> controller" where
  "saveCurrentAsPreset nm s = addPreset nm (camera_position s) (oc_target s) s"

definition update ::
  "orbit_update \<Rightarrow> (nat \<Rightarrow> vec3) \<Rightarrow> input_manager option \<Rightarrow> real \<Rightarrow> controller \<Rightarrow> fault + controller" where
  "update ocu worldPosition inputManager deltaTime s =
     (case (if wasdEnabled s \<and> inputManager \<noteq> None
            then updateWASDMovement inputManager deltaTime s else Inr s) of
        Inl e \<Rightarrow> Inl e
      | Inr s1 \<Rightarrow>
          (let s2 = (if followTarget s1 \<noteq> None \<and> \<not> isAnimating s1
                     then updateFollowTarget ocu worldPosition s1 else s1)
           in Inr (if controlMode s2 = ''orbit'' then orbitControls_update ocu s2 else s2)))"

text \<open>The frame callbacks of a run, in order, at the given clock readings.\<close>

definition run_frames :: "orbit_update \<Rightarrow> real list \<Rightarrow> controller \<Rightarrow> controller" where
  "run_frames ocu ts s = fold (animate ocu) ts s"

section \<open>Construction and sample states\<close>

text \<open>
  The constructors, with the defaults the source gives.  \<open>meshId\<close> and \<open>glowId\<close> are the
  identities of the two objects \<open>createPlanet\<close> and \<open>createSelectionGlow\<close> make.
\<close>

definition new_Planet ::
  "string \<Rightarrow> vec3 \<Rightarrow> orbit_desc option \<Rightarrow> bool \<Rightarrow> vec3 \<Rightarrow> nat \<Rightarrow> nat \<Rightarrow> planet" where
  "new_Planet nm rot orb hasRings pos meshId glowId =
     \<lparr>name = nm, rotation = rot, orbit = orb, isSelected = False, originalScale = 1.0,
      mesh = meshId, selectionGlow = glowId, mesh_rotation = Vec3 0 0 0, mesh_scale = 1,
      emissiveIntensity = (if nm = sun_name then 0.8 else 1), glow_opacity = 0,
      orbitLine = (if orb \<noteq> None then Some \<lparr>line_color = 0x444444, line_opacity = 0.3\<rparr> else None),
      rings = (if hasRings then Some \<lparr>ring_rotation_z = 0, rotationSpeed = 0.005\<rparr> else None),
      orbitGroup_position = (if orb \<noteq> None then pos else Vec3 0 0 0),
      group_position = (if orb \<noteq> None then Vec3 0 0 0 else pos),
      time = 0\<rparr>"

definition new_SpaceScene :: "planet list \<Rightarrow> scene" where
  "new_SpaceScene ps =
     \<lparr>planets = ps, scene_time = 0, camera_set = False, mouse = (0, 0),
      selectedPlanet = None, infoPanel = None, selection_calls = []\<rparr>"

text \<open>
  A scene of two bodies: the star and the third planet of \<open>createSolarSystem\<close>, with the
  values of their configuration entries (the planet's name, too, as UTF-8 bytes).
  \<open>earth_selected\<close> is that scene after a click whose ray meets the planet's mesh;
  \<open>ray_hits hs\<close> is a raycaster that reports the hits \<open>hs\<close>.
\<close>

definition earth_name :: string where
  "earth_name = [CHR 0xD0, CHR 0x97, CHR 0xD0, CHR 0xB5, CHR 0xD0, CHR 0xBC,
                 CHR 0xD0, CHR 0xBB, CHR 0xD1, CHR 0x8F]"

definition the_sun :: planet where
  "the_sun = new_Planet sun_name (Vec3 0 0.01 0) None False (Vec3 0 0 0) 0 10"

definition the_earth :: planet where
  "the_earth = new_Planet earth_name (Vec3 0 0.01 0)
                 (Some \<lparr>radius = 45, speed = 0.01\<rparr>) False (Vec3 45 0 0) 1 11"

definition small_scene :: scene where
  "small_scene = new_SpaceScene [the_sun, the_earth]"

definition ray_hits :: "hit list \<Rightarrow> raycaster" where
  "ray_hits hs = (\<lambda>pointer meshes. hs)"

definition earth_selected :: scene where
  "earth_selected =
     onMouseClick (ray_hits [\<lparr>distance = 40, object = mesh the_earth\<rparr>]) (400, 300) (800, 600)
       (setCamera small_scene)"

text \<open>A fresh loop started at time 0 with the counting callbacks.\<close>

definition counting_loop :: "(nat \<times> nat) gameloop" where
  "counting_loop = start 0 (Some count_update) (Some count_render) GameLoop"

text \<open>
  The controller as \<open>main.js\<close> makes it, the camera at \<open>(0, 50, 100)\<close> and not yet turned,
  with orbit controls that leave every pose alone (\<open>at_rest\<close>).  \<open>demo_in_flight\<close> is that
  controller half way through the transition to the preset \<open>sun\<close>, started at time 0 and
  with a frame at 1000 ms; \<open>demo_second_request\<close> asks for the preset \<open>earth\<close> at that
  moment; \<open>demo_following\<close> calls \<open>followObject\<close> at that moment instead.  \<open>holding_W\<close> is an
  input manager with the W key down.
\<close>

definition at_rest :: orbit_update where
  "at_rest p = p"


definition demo_controller :: controller where
  "demo_controller = CameraController (Vec3 0 50 100) (Quat 0 0 0 1) (Vec3 0 0 0)"

definition demo_in_flight :: controller where
  "demo_in_flight =
     animate at_rest 1000 (snd (animateToPosition at_rest 0 0 (Vec3 0 20 50) (Vec3 0 0 0) demo_controller))"

definition demo_second_request :: "promise \<times> controller" where
  "demo_second_request =
     animateToPosition at_rest 1000 1000 (Vec3 45 10 20) (Vec3 45 0 0) demo_in_flight"

definition demo_following :: controller where
  "demo_following = followObject 1 None demo_in_flight"

definition holding_W :: input_manager where
  "holding_W = \<lparr>keys = {''KeyW''}\<rparr>"

section \<open>Orbital kinematics\<close>

lemma Planet_update_orbit_position:
  assumes "orbit p = Some ob"
  shows "orbitGroup_position (Planet_update dt t p) =
           Vec3 (cos (t * speed ob) * radius ob) 0 (sin (t * speed ob) * radius ob)"
  using assms by (simp add: Planet_update_def updateSunEffects_def Let_def split: option.splits)

lemma Planet_update_orbit [simp]: "orbit (Planet_update dt t p) = orbit p"
  by (simp add: Planet_update_def updateSunEffects_def Let_def split: option.splits)

lemma SpaceScene_update_time [simp]:
  "scene_time (SpaceScene_update d sc) = scene_time sc + d"
  by (simp add: SpaceScene_update_def Let_def)

lemma SpaceScene_update_length [simp]:
  "length (planets (SpaceScene_update d sc)) = length (planets sc)"
  by (simp add: SpaceScene_update_def Let_def)

lemma SpaceScene_update_planet:
  "i < length (planets sc) \<Longrightarrow>
   planets (SpaceScene_update d sc) ! i = Planet_update d (scene_time sc + d) (planets sc ! i)"
  by (simp add: SpaceScene_update_def Let_def)

lemma run_updates_Nil [simp]: "run_updates [] sc = sc"
  by (simp add: run_updates_def)

lemma run_updates_Cons [simp]: "run_updates (d # ds) sc = run_updates ds (SpaceScene_update d sc)"
  by (simp add: run_updates_def)

lemma run_updates_snoc [simp]: "run_updates (ds @ [d]) sc = SpaceScene_update d (run_updates ds sc)"
  by (simp add: run_updates_def)

lemma run_updates_time [simp]: "scene_time (run_updates ds sc) = scene_time sc + sum_list ds"
  by (induction ds arbitrary: sc) simp_all

lemma run_updates_length [simp]: "length (planets (run_updates ds sc)) = length (planets sc)"
  by (induction ds arbitrary: sc) simp_all

lemma run_updates_orbit [simp]:
  "i < length (planets sc) \<Longrightarrow> orbit (planets (run_updates ds sc) ! i) = orbit (planets sc ! i)"
  by (induction ds arbitrary: sc) (simp_all add: SpaceScene_update_planet)

lemma run_updates_position:
  assumes "i < length (planets sc)" and "orbit (planets sc ! i) = Some ob" and "ds \<noteq> []"
  shows "orbitGroup_position (planets (run_updates ds sc) ! i) =
           Vec3 (cos ((scene_time sc + sum_list ds) * speed ob) * radius ob) 0
                (sin ((scene_time sc + sum_list ds) * speed ob) * radius ob)"
proof -
  from \<open>ds \<noteq> []\<close> obtain es d where ds: "ds = es @ [d]"
    by (cases ds rule: rev_cases) auto
  let ?mid = "run_updates es sc"
  have len: "i < length (planets ?mid)" using assms(1) by simp
  have orb: "orbit (planets ?mid ! i) = Some ob" using assms(1,2) by simp
  have "planets (run_updates ds sc) ! i = Planet_update d (scene_time ?mid + d) (planets ?mid ! i)"
    unfolding ds run_updates_snoc by (rule SpaceScene_update_planet [OF len])
  then show ?thesis
    using Planet_update_orbit_position [OF orb] by (simp add: ds add.assoc)
qed

text \<open>
  Claim C4.  For a planet with orbit descriptor \<open>ob\<close>, after any non-empty sequence of
  logic steps the orbit group sits at
  \<open>(radius \<cdot> cos (speed \<cdot> t), 0, radius \<cdot> sin (speed \<cdot> t))\<close>, where \<open>t\<close> is the scene's accumulated
  time, the sum of the steps; two sequences of steps with the same sum leave the same position;
  and with radius 45 and speed 0.01 the position is \<open>(45, 0, 0)\<close> at \<open>t = 0\<close> and
  \<open>(0, 0, 45)\<close> at the quarter period \<open>t = \<pi> / 0.01 / 2\<close>.
\<close>

theorem orbit_position_is_function_of_time:
  assumes "i < length (planets sc)" and "orbit (planets sc ! i) = Some ob" and "ds \<noteq> []"
  shows "scene_time (run_updates ds sc) = scene_time sc + sum_list ds \<and>
         orbitGroup_position (planets (run_updates ds sc) ! i) =
           Vec3 (radius ob * cos (speed ob * scene_time (run_updates ds sc))) 0
                (radius ob * sin (speed ob * scene_time (run_updates ds sc))) \<and>
         (\<forall>es. es \<noteq> [] \<and> sum_list es = sum_list ds \<longrightarrow>
               orbitGroup_position (planets (run_updates es sc) ! i) =
               orbitGroup_position (planets (run_updates ds sc) ! i)) \<and>
         (radius ob = 45 \<and> speed ob = 0.01 \<longrightarrow>
            (scene_time (run_updates ds sc) = 0 \<longrightarrow>
               orbitGroup_position (planets (run_updates ds sc) ! i) = Vec3 45 0 0) \<and>
            (scene_time (run_updates ds sc) = pi / 0.01 / 2 \<longrightarrow>
               orbitGroup_position (planets (run_updates ds sc) ! i) = Vec3 0 0 45))"
proof (intro conjI allI impI)
  show "scene_time (run_updates ds sc) = scene_time sc + sum_list ds" by simp
next
  show "orbitGroup_position (planets (run_updates ds sc) ! i) =
           Vec3 (radius ob * cos (speed ob * scene_time (run_updates ds sc))) 0
                (radius ob * sin (speed ob * scene_time (run_updates ds sc)))"
    using run_updates_position [OF assms] by (simp add: mult.commute)
next
  fix es assume "es \<noteq> [] \<and> sum_list es = sum_list ds"
  then show "orbitGroup_position (planets (run_updates es sc) ! i) =
               orbitGroup_position (planets (run_updates ds sc) ! i)"
    using run_updates_position [OF assms] run_updates_position [OF assms(1,2), of es] by simp
next
  assume ob: "radius ob = 45 \<and> speed ob = 0.01" and t: "scene_time (run_updates ds sc) = 0"
  then have "scene_time sc + sum_list ds = 0" by simp
  then show "orbitGroup_position (planets (run_updates ds sc) ! i) = Vec3 45 0 0"
    using run_updates_position [OF assms] ob by simp
next
  assume ob: "radius ob = 45 \<and> speed ob = 0.01"
    and t: "scene_time (run_updates ds sc) = pi / 0.01 / 2"
  then have ang: "(scene_time sc + sum_list ds) * speed ob = pi / 2" by simp
  have "orbitGroup_position (planets (run_updates ds sc) ! i) =
          Vec3 (cos (pi / 2) * radius ob) 0 (sin (pi / 2) * radius ob)"
    using run_updates_position [OF assms] unfolding ang .
  then show "orbitGroup_position (planets (run_updates ds sc) ! i) = Vec3 0 0 45"
    using ob by simp
qed


lemma small_scene_simps [simp]:
  "planets small_scene = [the_sun, the_earth]" "scene_time small_scene = 0"
  "orbit the_earth = Some \<lparr>radius = 45, speed = 0.01\<rparr>"
  by (simp_all add: small_scene_def new_SpaceScene_def the_earth_def new_Planet_def)

theorem orbit_position_is_function_of_time_witness:
  "orbitGroup_position (planets (run_updates [0] small_scene) ! 1) = Vec3 45 0 0 \<and>
   orbitGroup_position (planets (run_updates [pi / 0.01 / 4, pi / 0.01 / 4] small_scene) ! 1) = Vec3 0 0 45 \<and>
   orbitGroup_position (planets (run_updates [pi / 0.01 / 2] small_scene) ! 1) = Vec3 0 0 45"
proof -
  have i: "1 < length (planets small_scene)" by simp
  have o: "orbit (planets small_scene ! 1) = Some \<lparr>radius = 45, speed = 0.01\<rparr>" by simp
  have a: "[0::real] \<noteq> []" and b: "[pi / 0.01 / 4, pi / 0.01 / 4] \<noteq> ([]::real list)" by simp_all
  have t: "scene_time (run_updates [pi / 0.01 / 4, pi / 0.01 / 4] small_scene) = pi / 0.01 / 2"
    using orbit_position_is_function_of_time [OF i o b] by simp
  have e: "[pi / 0.01 / 2] \<noteq> [] \<and> sum_list [pi / 0.01 / 2] = sum_list [pi / 0.01 / 4, pi / 0.01 / 4]"
    by simp
  have p0: "orbitGroup_position (planets (run_updates [0] small_scene) ! 1) = Vec3 45 0 0"
    using orbit_position_is_function_of_time [OF i o a] by simp
  have p1: "orbitGroup_position (planets (run_updates [pi / 0.01 / 4, pi / 0.01 / 4] small_scene) ! 1) = Vec3 0 0 45"
    using orbit_position_is_function_of_time [OF i o b] t by simp
  have p2: "orbitGroup_position (planets (run_updates [pi / 0.01 / 2] small_scene) ! 1) =
            orbitGroup_position (planets (run_updates [pi / 0.01 / 4, pi / 0.01 / 4] small_scene) ! 1)"
    using orbit_position_is_function_of_time [OF i o b] e by blast
  show ?thesis using p0 p1 p2 by simp
qed

section \<open>Fixed-step scheduler\<close>

lemma fixed_steps_counts:
  assumes "counting g" and "0 < frameTime g" and "0 \<le> accumulator g"
    and "n = nat \<lfloor>accumulator g / frameTime g\<rfloor>"
  shows "fixed_steps g (u, r) =
           Some (g\<lparr>accumulator := accumulator g - real n * frameTime g\<rparr>, (u + n, r))"
  using assms
proof (induction n arbitrary: g u)
  case 0
  then have "\<lfloor>accumulator g / frameTime g\<rfloor> \<le> 0" by simp
  then have "accumulator g / frameTime g < 1" by linarith
  then have "accumulator g < frameTime g" using "0.prems"(2) by (simp add: divide_simps)
  then show ?case by (subst fixed_steps.simps) simp
next
  case (Suc n)
  let ?h = "frameTime g"
  let ?g = "g\<lparr>accumulator := accumulator g - ?h\<rparr>"
  from Suc.prems have fl: "\<lfloor>accumulator g / ?h\<rfloor> = int (Suc n)" by linarith
  then have "1 \<le> accumulator g / ?h" by linarith
  then have ge: "?h \<le> accumulator g" using Suc.prems(2) by (simp add: divide_simps)
  have "(accumulator g - ?h) / ?h = accumulator g / ?h - 1"
    using Suc.prems(2) by (simp add: diff_divide_distrib)
  then have "\<lfloor>accumulator ?g / frameTime ?g\<rfloor> = int n" using fl by simp
  then have n: "n = nat \<lfloor>accumulator ?g / frameTime ?g\<rfloor>" by simp
  have c: "counting ?g" using Suc.prems(1) by (simp add: counting_def)
  have ih: "fixed_steps ?g (Suc u, r) =
              Some (?g\<lparr>accumulator := accumulator ?g - real n * frameTime ?g\<rparr>, (Suc u + n, r))"
    by (rule Suc.IH [OF c _ _ n]) (use Suc.prems(2) ge in simp_all)
  have cb: "updateCallback g = Some count_update" using Suc.prems(1) by (simp add: counting_def)
  show ?case
    by (subst fixed_steps.simps) (simp add: ge cb count_update_def ih algebra_simps)
qed


lemma floor_residual:
  fixes a h :: real
  assumes "0 < h" "0 \<le> a"
  shows "0 \<le> a - real (nat \<lfloor>a / h\<rfloor>) * h" and "a - real (nat \<lfloor>a / h\<rfloor>) * h < h"
proof -
  have nn: "0 \<le> \<lfloor>a / h\<rfloor>" using assms by simp
  then have r: "real (nat \<lfloor>a / h\<rfloor>) = of_int \<lfloor>a / h\<rfloor>" by simp
  have "of_int \<lfloor>a / h\<rfloor> \<le> a / h" by simp
  then have "of_int \<lfloor>a / h\<rfloor> * h \<le> (a / h) * h"
    using assms(1) by (intro mult_right_mono) simp_all
  then have "of_int \<lfloor>a / h\<rfloor> * h \<le> a" using assms(1) by simp
  then show "0 \<le> a - real (nat \<lfloor>a / h\<rfloor>) * h" using r by simp
  have "a / h < of_int \<lfloor>a / h\<rfloor> + 1" by linarith
  then have "(a / h) * h < (of_int \<lfloor>a / h\<rfloor> + 1) * h"
    using assms(1) by (intro mult_strict_right_mono) simp_all
  then have "a < (of_int \<lfloor>a / h\<rfloor> + 1) * h" using assms(1) by simp
  then show "a - real (nat \<lfloor>a / h\<rfloor>) * h < h" using r by (simp add: algebra_simps)
qed

lemma loop_frame:
  assumes "between_frames h t g" and "0 < h" and "0 \<le> d" and "d \<le> 50"
  shows "\<exists>g'. loop (t + d) (g, (u, r)) =
                 Some (g', (u + nat \<lfloor>(accumulator g + d) / h\<rfloor>, Suc r)) \<and>
              between_frames h (t + d) g' \<and>
              accumulator g' = accumulator g + d - real (nat \<lfloor>(accumulator g + d) / h\<rfloor>) * h"
proof -
  let ?a = "accumulator g + d"
  let ?n = "nat \<lfloor>?a / h\<rfloor>"
  let ?g3 = "g\<lparr>currentTime := t + d, lastTime := t + d, accumulator := ?a\<rparr>"
  let ?g4 = "?g3\<lparr>accumulator := accumulator ?g3 - real ?n * frameTime ?g3\<rparr>"
  from assms(1) have g: "isRunning g" "counting g" "frameTime g = h" "lastTime g = t"
    "0 \<le> accumulator g" "accumulator g < h"
    by (simp_all add: between_frames_def)
  have c3: "counting ?g3" using g(2) by (simp add: counting_def)
  have fs: "fixed_steps ?g3 (u, r) = Some (?g4, (u + ?n, r))"
    by (rule fixed_steps_counts [OF c3]) (use g assms in simp_all)
  have rc: "renderCallback ?g4 = Some count_render" using g(2) by (simp add: counting_def)
  have md: "min d 50 = d" using assms(4) by simp
  have lp: "loop (t + d) (g, (u, r)) = Some (?g4, (u + ?n, Suc r))"
    using g(1,4) fs rc by (simp add: loop_def Let_def md count_render_def)
  have a0: "0 \<le> ?a" using g(5) assms(3) by simp
  have bf: "between_frames h (t + d) ?g4"
    using g floor_residual [OF assms(2) a0]
    by (simp add: between_frames_def counting_def)
  have acc: "accumulator ?g4 = ?a - real ?n * h" using g(3) by simp
  show ?thesis using lp bf acc by blast
qed

lemma run_loop_counts:
  assumes "between_frames h t g" and "0 < h" and "\<forall>d\<in>set ds. 0 \<le> d \<and> d \<le> 50"
  shows "\<exists>g'. run_loop (timestamps t ds) (g, (u, r)) =
                 Some (g', (u + nat \<lfloor>(accumulator g + sum_list ds) / h\<rfloor>, r + length ds)) \<and>
              between_frames h (t + sum_list ds) g'"
  using assms
proof (induction ds arbitrary: g t u r)
  case Nil
  then have "accumulator g / h < 1" "0 \<le> accumulator g / h"
    by (simp_all add: between_frames_def)
  then have "\<lfloor>accumulator g / h\<rfloor> = 0" by linarith
  then show ?case using Nil.prems(1) by simp
next
  case (Cons d ds)
  let ?a = "accumulator g + d"
  let ?n = "nat \<lfloor>?a / h\<rfloor>"
  from Cons.prems have d: "0 \<le> d" "d \<le> 50" and rest: "\<forall>e\<in>set ds. 0 \<le> e \<and> e \<le> 50"
    by simp_all
  from loop_frame [OF Cons.prems(1,2) d, of u r] obtain g1 where
    l: "loop (t + d) (g, (u, r)) = Some (g1, (u + ?n, Suc r))" and
    b: "between_frames h (t + d) g1" and
    a: "accumulator g1 = ?a - real ?n * h"
    by blast
  from Cons.IH [OF b Cons.prems(2) rest, of "u + ?n" "Suc r"] obtain g2 where
    r2: "run_loop (timestamps (t + d) ds) (g1, (u + ?n, Suc r)) =
           Some (g2, (u + ?n + nat \<lfloor>(accumulator g1 + sum_list ds) / h\<rfloor>, Suc r + length ds))" and
    b2: "between_frames h (t + d + sum_list ds) g2"
    by blast
  have a0: "0 \<le> ?a" using Cons.prems(1) d by (simp add: between_frames_def)
  have nn: "0 \<le> \<lfloor>?a / h\<rfloor>" using a0 Cons.prems(2) by simp
  have s0: "0 \<le> sum_list ds" using rest by (simp add: sum_list_nonneg)
  have "(accumulator g1 + sum_list ds) / h = (?a + sum_list ds) / h - of_int \<lfloor>?a / h\<rfloor>"
    using a nn Cons.prems(2) by (simp add: field_simps)
  then have fl: "\<lfloor>(accumulator g1 + sum_list ds) / h\<rfloor> = \<lfloor>(?a + sum_list ds) / h\<rfloor> - \<lfloor>?a / h\<rfloor>"
    by simp
  have mono: "\<lfloor>?a / h\<rfloor> \<le> \<lfloor>(?a + sum_list ds) / h\<rfloor>"
    using s0 Cons.prems(2) by (intro floor_mono divide_right_mono) simp_all
  have "?n + nat \<lfloor>(accumulator g1 + sum_list ds) / h\<rfloor> = nat \<lfloor>(?a + sum_list ds) / h\<rfloor>"
    unfolding fl using nn mono by linarith
  then have cnt: "u + ?n + nat \<lfloor>(accumulator g1 + sum_list ds) / h\<rfloor> =
                  u + nat \<lfloor>(accumulator g + sum_list (d # ds)) / h\<rfloor>"
    by (simp add: add.assoc)
  show ?case
    using l r2 b2 cnt by (simp add: add.assoc)
qed


text \<open>
  Claim C5.  A running loop whose residual is below one step \<open>h\<close> is fed raw deltas
  between 0 and the 50 ms clamp, with sum \<open>S\<close>.  Every frame returns, and the update callback
  has then run \<open>\<lfloor>(residual + S) / h\<rfloor>\<close> times: within one of \<open>\<lfloor>S / h\<rfloor>\<close>, equal to it for a
  fresh loop (residual 0), and the same for every other chunking of \<open>S\<close> into such deltas.
\<close>

theorem fixed_step_update_count:
  assumes "between_frames h t g" and "0 < h" and "\<forall>d\<in>set ds. 0 \<le> d \<and> d \<le> 50"
  shows "updates_made (timestamps t ds) g = Some (nat \<lfloor>(accumulator g + sum_list ds) / h\<rfloor>) \<and>
         \<bar>int (nat \<lfloor>(accumulator g + sum_list ds) / h\<rfloor>) - \<lfloor>sum_list ds / h\<rfloor>\<bar> \<le> 1 \<and>
         (accumulator g = 0 \<longrightarrow> updates_made (timestamps t ds) g = Some (nat \<lfloor>sum_list ds / h\<rfloor>)) \<and>
         (\<forall>es. (\<forall>d\<in>set es. 0 \<le> d \<and> d \<le> 50) \<and> sum_list es = sum_list ds \<longrightarrow>
               updates_made (timestamps t es) g = updates_made (timestamps t ds) g)"
proof -
  have made: "updates_made (timestamps t es) g = Some (nat \<lfloor>(accumulator g + sum_list es) / h\<rfloor>)"
    if "\<forall>d\<in>set es. 0 \<le> d \<and> d \<le> 50" for es
    using run_loop_counts [OF assms(1,2) that, of 0 0] by (auto simp: updates_made_def)
  from assms(1) have a: "0 \<le> accumulator g" "accumulator g < h"
    by (simp_all add: between_frames_def)
  have s0: "0 \<le> sum_list ds" using assms(3) by (simp add: sum_list_nonneg)
  have split: "(accumulator g + sum_list ds) / h = sum_list ds / h + accumulator g / h"
    by (simp add: add_divide_distrib)
  have frac: "0 \<le> accumulator g / h" "accumulator g / h < 1" using a assms(2) by simp_all
  have lo: "\<lfloor>sum_list ds / h\<rfloor> \<le> \<lfloor>(accumulator g + sum_list ds) / h\<rfloor>"
    unfolding split using frac by (intro floor_mono) simp
  have hi: "\<lfloor>(accumulator g + sum_list ds) / h\<rfloor> \<le> \<lfloor>sum_list ds / h\<rfloor> + 1"
    unfolding split using frac by linarith
  have nn: "0 \<le> \<lfloor>(accumulator g + sum_list ds) / h\<rfloor>" using a s0 assms(2) by simp
  have tol: "\<bar>int (nat \<lfloor>(accumulator g + sum_list ds) / h\<rfloor>) - \<lfloor>sum_list ds / h\<rfloor>\<bar> \<le> 1"
    using lo hi nn by linarith
  show ?thesis
    using made [OF assms(3)] tol made by (auto simp del: of_nat_nat)
qed

theorem fixed_step_update_count_witness:
  "updates_made (timestamps 0 [16, 16, 16]) counting_loop = Some 2 \<and>
   updates_made (timestamps 0 [40, 8]) counting_loop = Some 2"
proof -
  have b: "between_frames (1000 / 60) 0 counting_loop"
    by (simp add: between_frames_def counting_loop_def start_def GameLoop_def counting_def)
  have h: "(0::real) < 1000 / 60" by simp
  have d: "\<forall>d\<in>set [16, 16, 16 :: real]. 0 \<le> d \<and> d \<le> 50" by simp
  have a: "accumulator counting_loop = 0"
    by (simp add: counting_loop_def start_def GameLoop_def)
  have e: "(\<forall>d\<in>set [40, 8 :: real]. 0 \<le> d \<and> d \<le> 50) \<and> sum_list [40, 8 :: real] = sum_list [16, 16, 16]"
    by simp
  have one: "updates_made (timestamps 0 [16, 16, 16]) counting_loop = Some 2"
    using fixed_step_update_count [OF b h d] a by simp
  have two: "updates_made (timestamps 0 [40, 8]) counting_loop =
             updates_made (timestamps 0 [16, 16, 16]) counting_loop"
    using fixed_step_update_count [OF b h d] e by blast
  show ?thesis using one two by simp
qed

section \<open>Camera transitions\<close>

lemma lerpVectors_one [simp]: "lerpVectors a b 1 = b"
  by (cases b) (simp add: lerpVectors_def)

lemma lerpVectors_zero [simp]: "lerpVectors a b 0 = a"
  by (cases a) (simp add: lerpVectors_def)

lemma easeInOutCubic_one [simp]: "easeInOutCubic 1 = 1"
  by (simp add: easeInOutCubic_def)

lemma animate_idle [simp]: "animation s = None \<Longrightarrow> animate ocu now s = s"
  by (simp add: animate_def)

lemma run_frames_Nil [simp]: "run_frames ocu [] s = s"
  by (simp add: run_frames_def)

lemma run_frames_Cons [simp]: "run_frames ocu (t # ts) s = run_frames ocu ts (animate ocu t s)"
  by (simp add: run_frames_def)

lemma run_frames_idle [simp]: "animation s = None \<Longrightarrow> run_frames ocu ts s = s"
  by (induction ts) simp_all

lemma animate_final:
  assumes "animation s = Some tr" and "0 < animationDuration s"
    and "animationDuration s \<le> now - startTime tr"
  shows "animate ocu now s =
           (orbitControls_update ocu
              (s\<lparr>camera_position := targetPosition tr, oc_target := targetLookAt tr\<rparr>))
           \<lparr>isAnimating := False, animation := None\<rparr>"
proof -
  have "1 \<le> (now - startTime tr) / animationDuration s"
    using assms(2,3) by (simp add: le_divide_eq)
  then have "min ((now - startTime tr) / animationDuration s) 1 = 1" by simp
  then show ?thesis using assms(1) by (simp add: animate_def Let_def)
qed

lemma animate_mid:
  assumes "animation s = Some tr" and "0 < animationDuration s"
    and "now - startTime tr < animationDuration s"
  shows "animate ocu now s =
           orbitControls_update ocu
              (s\<lparr>camera_position := lerpVectors (startPosition tr) (targetPosition tr)
                      (easeInOutCubic ((now - startTime tr) / animationDuration s)),
                 oc_target := lerpVectors (startTarget tr) (targetLookAt tr)
                      (easeInOutCubic ((now - startTime tr) / animationDuration s))\<rparr>)"
proof -
  have "(now - startTime tr) / animationDuration s < 1"
    using assms(2,3) by (simp add: divide_less_eq)
  then have "min ((now - startTime tr) / animationDuration s) 1 = (now - startTime tr) / animationDuration s"
    "(now - startTime tr) / animationDuration s < 1" by simp_all
  then show ?thesis using assms(1) by (simp add: animate_def Let_def)
qed

lemma orbitControls_update_fields [simp]:
  "isAnimating (orbitControls_update ocu s) = isAnimating s"
  "animation (orbitControls_update ocu s) = animation s"
  "animationDuration (orbitControls_update ocu s) = animationDuration s"
  "followTarget (orbitControls_update ocu s) = followTarget s"
  "camera_position (orbitControls_update ocu s) = fst (ocu (camera_position s, oc_target s))"
  "oc_target (orbitControls_update ocu s) = snd (ocu (camera_position s, oc_target s))"
  by (simp_all add: orbitControls_update_def Let_def)

text \<open>A frame before the deadline keeps the transition pending and the flags as they are.\<close>

lemma animate_mid_fields:
  assumes "animation s = Some tr" and "0 < animationDuration s"
    and "now - startTime tr < animationDuration s"
  shows "animation (animate ocu now s) = Some tr"
    and "isAnimating (animate ocu now s) = isAnimating s"
    and "animationDuration (animate ocu now s) = animationDuration s"
    and "followTarget (animate ocu now s) = followTarget s"
  by (simp_all add: animate_mid [OF assms] assms(1))

lemma run_frames_reaches_end:
  assumes "animation s = Some tr" and "0 < animationDuration s"
    and "\<exists>t\<in>set ts. animationDuration s \<le> t - startTime tr"
    and "ocu (targetPosition tr, targetLookAt tr) = (targetPosition tr, targetLookAt tr)"
  shows "camera_position (run_frames ocu ts s) = targetPosition tr \<and>
         oc_target (run_frames ocu ts s) = targetLookAt tr \<and>
         \<not> isAnimating (run_frames ocu ts s) \<and> animation (run_frames ocu ts s) = None"
  using assms
proof (induction ts arbitrary: s)
  case Nil
  then show ?case by simp
next
  case (Cons t ts)
  show ?case
  proof (cases "animationDuration s \<le> t - startTime tr")
    case True
    have "animation (animate ocu t s) = None"
      by (simp add: animate_final [OF Cons.prems(1,2) True])
    then have "run_frames ocu (t # ts) s = animate ocu t s" by simp
    then show ?thesis
      by (simp add: animate_final [OF Cons.prems(1,2) True] Cons.prems(4))
  next
    case False
    then have lt: "t - startTime tr < animationDuration s" by simp
    note f = animate_mid_fields [OF Cons.prems(1,2) lt, of ocu]
    have ex: "\<exists>u\<in>set ts. animationDuration (animate ocu t s) \<le> u - startTime tr"
      using Cons.prems(3) False f(3) by auto
    have "0 < animationDuration (animate ocu t s)" using f(3) Cons.prems(2) by simp
    from Cons.IH [OF f(1) this ex Cons.prems(4)] show ?thesis by simp
  qed
qed

text \<open>
  Where a pending transition ends, whatever the orbit controls do: the frame at or past the
  deadline writes the end pose, the orbit controls' update is applied to it once, and no
  later frame runs.
\<close>

lemma run_frames_ends:
  assumes "animation s = Some tr" and "0 < animationDuration s"
    and "\<exists>t\<in>set ts. animationDuration s \<le> t - startTime tr"
  shows "(camera_position (run_frames ocu ts s), oc_target (run_frames ocu ts s)) =
           ocu (targetPosition tr, targetLookAt tr) \<and>
         \<not> isAnimating (run_frames ocu ts s) \<and> animation (run_frames ocu ts s) = None"
  using assms
proof (induction ts arbitrary: s)
  case Nil
  then show ?case by simp
next
  case (Cons t ts)
  show ?case
  proof (cases "animationDuration s \<le> t - startTime tr")
    case True
    have "animation (animate ocu t s) = None"
      by (simp add: animate_final [OF Cons.prems(1,2) True])
    then have "run_frames ocu (t # ts) s = animate ocu t s" by simp
    then show ?thesis
      by (simp add: animate_final [OF Cons.prems(1,2) True])
  next
    case False
    then have lt: "t - startTime tr < animationDuration s" by simp
    note f = animate_mid_fields [OF Cons.prems(1,2) lt, of ocu]
    have ex: "\<exists>u\<in>set ts. animationDuration (animate ocu t s) \<le> u - startTime tr"
      using Cons.prems(3) False f(3) by auto
    have "0 < animationDuration (animate ocu t s)" using f(3) Cons.prems(2) by simp
    from Cons.IH [OF f(1) this ex] show ?thesis by simp
  qed
qed

lemma stopFollowing_fields [simp]:
  "followTarget (stopFollowing s) = None"
  "isAnimating (stopFollowing s) = isAnimating s"
  "animationDuration (stopFollowing s) = animationDuration s"
  "camera_position (stopFollowing s) = camera_position s"
  "oc_target (stopFollowing s) = oc_target s"
  by (simp_all add: stopFollowing_def)

lemma animateToPosition_idle:
  "\<not> isAnimating s \<Longrightarrow>
   snd (animateToPosition ocu now0 now1 P T s) = animate ocu now1 (started now0 P T s)"
  by (simp add: animateToPosition_def started_def Let_def)

lemma started_fields [simp]:
  "animation (started now0 P T s) =
     Some \<lparr>startPosition = camera_position s, startTarget = oc_target s,
           targetPosition = P, targetLookAt = T, startTime = now0\<rparr>"
  "animationDuration (started now0 P T s) = animationDuration s"
  "isAnimating (started now0 P T s)"
  "followTarget (started now0 P T s) = None"
  by (simp_all add: started_def)


lemma demo_controller_simps [simp]:
  "\<not> isAnimating demo_controller" "animationDuration demo_controller = 2000"
  "camera_position demo_controller = Vec3 0 50 100" "oc_target demo_controller = Vec3 0 0 0"
  "followTarget demo_controller = None" "animation demo_controller = None"
  "presets demo_controller = initial_presets"
  by (simp_all add: demo_controller_def CameraController_def)

lemma easeInOutCubic_half [simp]: "easeInOutCubic (1 / 2) = 1 / 2"
  by (simp add: easeInOutCubic_def)

lemma easeInOutCubic_zero [simp]: "easeInOutCubic 0 = 0"
  by (simp add: easeInOutCubic_def)

lemma demo_in_flight_simps:
  "isAnimating demo_in_flight"
  "animationDuration demo_in_flight = 2000"
  "animation demo_in_flight =
     Some \<lparr>startPosition = Vec3 0 50 100, startTarget = Vec3 0 0 0,
           targetPosition = Vec3 0 20 50, targetLookAt = Vec3 0 0 0, startTime = 0\<rparr>"
  "camera_position demo_in_flight = Vec3 0 35 75"
  "oc_target demo_in_flight = Vec3 0 0 0"
  "followTarget demo_in_flight = None"
proof -
  let ?tr = "\<lparr>startPosition = Vec3 0 50 100, startTarget = Vec3 0 0 0,
              targetPosition = Vec3 0 20 50, targetLookAt = Vec3 0 0 0, startTime = 0\<rparr>"
  let ?s1 = "snd (animateToPosition at_rest 0 0 (Vec3 0 20 50) (Vec3 0 0 0) demo_controller)"
  have s1: "?s1 = animate at_rest 0 (started 0 (Vec3 0 20 50) (Vec3 0 0 0) demo_controller)"
    by (simp add: animateToPosition_idle)
  have a0: "animation (started 0 (Vec3 0 20 50) (Vec3 0 0 0) demo_controller) = Some ?tr"
    by simp
  have m0: "?s1 = orbitControls_update at_rest
              ((started 0 (Vec3 0 20 50) (Vec3 0 0 0) demo_controller)
                 \<lparr>camera_position := Vec3 0 50 100, oc_target := Vec3 0 0 0\<rparr>)"
    unfolding s1 by (subst animate_mid [OF a0]) simp_all
  have f1: "animation ?s1 = Some ?tr" "animationDuration ?s1 = 2000" "isAnimating ?s1"
    "followTarget ?s1 = None"
    unfolding m0 by simp_all
  have m1: "demo_in_flight = orbitControls_update at_rest
              (?s1\<lparr>camera_position := Vec3 0 35 75, oc_target := Vec3 0 0 0\<rparr>)"
    unfolding demo_in_flight_def
    by (subst animate_mid [OF f1(1)]) (simp_all add: f1 lerpVectors_def)
  show "isAnimating demo_in_flight" "animationDuration demo_in_flight = 2000"
    "animation demo_in_flight = Some ?tr" "camera_position demo_in_flight = Vec3 0 35 75"
    "oc_target demo_in_flight = Vec3 0 0 0" "followTarget demo_in_flight = None"
    unfolding m1 by (simp_all add: f1 at_rest_def)
qed

lemma vlength_3_4 [simp]: "vlength (Vec3 0 3 4) = 5"
proof -
  have "sqrt 25 = sqrt (5\<^sup>2)" by simp
  also have "\<dots> = 5" by simp
  finally show ?thesis by (simp add: vlength_def)
qed




section \<open>Requests made while a transition is in flight\<close>

lemma animate_followTarget [simp]: "followTarget (animate ocu now s) = followTarget s"
  by (simp add: animate_def Let_def split: option.splits)

lemma run_frames_in_flight:
  assumes "animation s = Some tr" and "0 < animationDuration s"
    and "\<forall>t\<in>set ts. t - startTime tr < animationDuration s"
  shows "animation (run_frames ocu ts s) = Some tr \<and>
         isAnimating (run_frames ocu ts s) = isAnimating s \<and>
         animationDuration (run_frames ocu ts s) = animationDuration s \<and>
         (ts \<noteq> [] \<longrightarrow>
            (camera_position (run_frames ocu ts s), oc_target (run_frames ocu ts s)) =
              ocu (lerpVectors (startPosition tr) (targetPosition tr)
                     (easeInOutCubic ((last ts - startTime tr) / animationDuration s)),
                   lerpVectors (startTarget tr) (targetLookAt tr)
                     (easeInOutCubic ((last ts - startTime tr) / animationDuration s))))"
  using assms
proof (induction ts arbitrary: s)
  case Nil
  then show ?case by simp
next
  case (Cons t ts)
  from Cons.prems(3) have lt: "t - startTime tr < animationDuration s" by simp
  note f = animate_mid_fields [OF Cons.prems(1,2) lt, of ocu]
  have d: "0 < animationDuration (animate ocu t s)" using f(3) Cons.prems(2) by simp
  have r: "\<forall>u\<in>set ts. u - startTime tr < animationDuration (animate ocu t s)"
    using Cons.prems(3) f(3) by simp
  note ih = Cons.IH [OF f(1) d r]
  show ?case
  proof (cases "ts = []")
    case True
    then show ?thesis
      using f by (simp add: animate_mid [OF Cons.prems(1,2) lt])
  next
    case False
    then show ?thesis using ih f by simp
  qed
qed



text \<open>
  Claim C1, as stated, fails.  The transition to \<open>(0, 20, 50)\<close> is half way, the camera at
  \<open>(0, 35, 75)\<close>, when a transition to \<open>(45, 10, 20)\<close> is requested.  The request changes
  nothing: the pending transition still starts at \<open>(0, 50, 100)\<close>, not at the interpolated
  pose, and the frames that follow end at \<open>(0, 20, 50)\<close>, not at the pose requested second.
\<close>

theorem preemption_counterexample:
  "camera_position demo_in_flight = Vec3 0 35 75 \<and>
   animation (snd demo_second_request) =
     Some \<lparr>startPosition = Vec3 0 50 100, startTarget = Vec3 0 0 0,
           targetPosition = Vec3 0 20 50, targetLookAt = Vec3 0 0 0, startTime = 0\<rparr> \<and>
   camera_position (run_frames at_rest [2000, 3000, 4000] (snd demo_second_request)) = Vec3 0 20 50 \<and>
   camera_position (run_frames at_rest [2000, 3000, 4000] (snd demo_second_request)) \<noteq> Vec3 45 10 20 \<and>
   oc_target (run_frames at_rest [2000, 3000, 4000] (snd demo_second_request)) \<noteq> Vec3 45 0 0 \<and>
   \<not> isAnimating (run_frames at_rest [2000, 3000, 4000] (snd demo_second_request))"
proof -
  let ?tr = "\<lparr>startPosition = Vec3 0 50 100, startTarget = Vec3 0 0 0,
              targetPosition = Vec3 0 20 50, targetLookAt = Vec3 0 0 0, startTime = 0\<rparr>"
  have r: "snd demo_second_request = demo_in_flight"
    by (simp add: demo_second_request_def animateToPosition_def demo_in_flight_simps)
  have e: "\<exists>t\<in>set [2000, 3000, 4000]. animationDuration demo_in_flight \<le> t - startTime ?tr"
    by (simp add: demo_in_flight_simps)
  have o: "at_rest (targetPosition ?tr, targetLookAt ?tr) = (targetPosition ?tr, targetLookAt ?tr)"
    by (simp add: at_rest_def)
  have d: "0 < animationDuration demo_in_flight" by (simp add: demo_in_flight_simps)
  from run_frames_reaches_end [of demo_in_flight ?tr "[2000, 3000, 4000]" at_rest,
         OF demo_in_flight_simps(3) d e o]
  show ?thesis unfolding r by (simp add: demo_in_flight_simps)
qed

lemma animateToPreset_while_animating:
  assumes "isAnimating s"
  shows "fst (animateToPreset ocu tstart tframe presetName s) \<noteq> Pending"
    and "\<exists>c. snd (animateToPreset ocu tstart tframe presetName s) = s\<lparr>console := c\<rparr>"
proof -
  have ex: "\<exists>c. s = s\<lparr>console := c\<rparr>" by (rule exI [of _ "console s"]) simp
  show "fst (animateToPreset ocu tstart tframe presetName s) \<noteq> Pending"
    using assms by (simp add: animateToPreset_def animateToPosition_def split: js_value.splits)
  show "\<exists>c. snd (animateToPreset ocu tstart tframe presetName s) = s\<lparr>console := c\<rparr>"
  proof (cases "presets_get (presets s) presetName")
    case Undefined
    then show ?thesis by (auto simp: animateToPreset_def)
  next
    case Inherited
    then have "snd (animateToPreset ocu tstart tframe presetName s) = s"
      by (simp add: animateToPreset_def)
    then show ?thesis using ex by simp
  next
    case (Own preset)
    then have "snd (animateToPreset ocu tstart tframe presetName s) = s"
      using assms by (simp add: animateToPreset_def animateToPosition_def)
    then show ?thesis using ex by simp
  qed
qed

text \<open>
  Claim C1, amended.  Transition A, toward \<open>(PA, TA)\<close>, is started from a controller that is
  not animating and is still in flight at every frame so far.  A request B made now, by
  \<open>animateToPosition\<close> or by \<open>animateToPreset\<close> with any name, is ignored.  Its promise is
  settled when the call returns, resolved by \<open>animateToPosition\<close>.  The controller is as
  before, but for what \<open>animateToPreset\<close> may print: camera and target stay at A's currently
  interpolated pose, the pose A's last frame computed and the orbit controls' update left;
  A's captured start and end pose stay in force.  The frames that follow end with
  \<open>isAnimating\<close> false at A's end pose as the orbit controls' update leaves it, exactly
  \<open>(PA, TA)\<close> when that update leaves \<open>(PA, TA)\<close> alone, and never at the pose B asked for.
\<close>

theorem request_during_transition_is_ignored:
  assumes "\<not> isAnimating s" and "0 < animationDuration s"
    and "\<forall>t\<in>set (tframe # ts). t - tstart < animationDuration s"
    and "\<exists>u\<in>set us. animationDuration s \<le> u - tstart"
  shows "let mid = run_frames ocu ts (snd (animateToPosition ocu tstart tframe PA TA s));
             e = easeInOutCubic ((last (tframe # ts) - tstart) / animationDuration s);
             trA = \<lparr>startPosition = camera_position s, startTarget = oc_target s,
                    targetPosition = PA, targetLookAt = TA, startTime = tstart\<rparr>
         in isAnimating mid \<and> animation mid = Some trA \<and>
            (camera_position mid, oc_target mid) =
               ocu (lerpVectors (camera_position s) PA e, lerpVectors (oc_target s) TA e) \<and>
            animateToPosition ocu tstartB tframeB PB TB mid = (Resolved, mid) \<and>
            (\<forall>presetName.
               fst (animateToPreset ocu tstartB tframeB presetName mid) \<noteq> Pending \<and>
               (\<exists>c. snd (animateToPreset ocu tstartB tframeB presetName mid) = mid\<lparr>console := c\<rparr>) \<and>
               (camera_position (run_frames ocu us (snd (animateToPreset ocu tstartB tframeB presetName mid))),
                oc_target (run_frames ocu us (snd (animateToPreset ocu tstartB tframeB presetName mid))))
                 = ocu (PA, TA) \<and>
               \<not> isAnimating (run_frames ocu us (snd (animateToPreset ocu tstartB tframeB presetName mid)))) \<and>
            (camera_position (run_frames ocu us (snd (animateToPosition ocu tstartB tframeB PB TB mid))),
             oc_target (run_frames ocu us (snd (animateToPosition ocu tstartB tframeB PB TB mid))))
              = ocu (PA, TA) \<and>
            \<not> isAnimating (run_frames ocu us (snd (animateToPosition ocu tstartB tframeB PB TB mid))) \<and>
            (ocu (PA, TA) = (PA, TA) \<longrightarrow>
               camera_position (run_frames ocu us (snd (animateToPosition ocu tstartB tframeB PB TB mid))) = PA \<and>
               oc_target (run_frames ocu us (snd (animateToPosition ocu tstartB tframeB PB TB mid))) = TA)"
proof -
  let ?tr = "\<lparr>startPosition = camera_position s, startTarget = oc_target s,
              targetPosition = PA, targetLookAt = TA, startTime = tstart\<rparr>"
  let ?s0 = "started tstart PA TA s"
  let ?mid = "run_frames ocu ts (snd (animateToPosition ocu tstart tframe PA TA s))"
  have mid: "?mid = run_frames ocu (tframe # ts) ?s0"
    using assms(1) by (simp add: animateToPosition_idle)
  have a: "animation ?s0 = Some ?tr" by simp
  have d: "0 < animationDuration ?s0" using assms(2) by simp
  have f: "\<forall>t\<in>set (tframe # ts). t - startTime ?tr < animationDuration ?s0"
    using assms(3) by simp
  from run_frames_in_flight [of ?s0 ?tr "tframe # ts" ocu, OF a d f]
  have m: "animation ?mid = Some ?tr" "isAnimating ?mid" "animationDuration ?mid = animationDuration s"
    "(camera_position ?mid, oc_target ?mid) =
       ocu (lerpVectors (camera_position s) PA
              (easeInOutCubic ((last (tframe # ts) - tstart) / animationDuration s)),
            lerpVectors (oc_target s) TA
              (easeInOutCubic ((last (tframe # ts) - tstart) / animationDuration s)))"
    unfolding mid by simp_all
  have req: "animateToPosition ocu tstartB tframeB PB TB ?mid = (Resolved, ?mid)"
    using m(2) by (simp add: animateToPosition_def)
  have ends: "(camera_position (run_frames ocu us (?mid\<lparr>console := c\<rparr>)),
               oc_target (run_frames ocu us (?mid\<lparr>console := c\<rparr>))) = ocu (PA, TA) \<and>
              \<not> isAnimating (run_frames ocu us (?mid\<lparr>console := c\<rparr>))" for c
  proof -
    have a2: "animation (?mid\<lparr>console := c\<rparr>) = Some ?tr" using m(1) by simp
    have d2: "0 < animationDuration (?mid\<lparr>console := c\<rparr>)" using m(3) assms(2) by simp
    have e2: "\<exists>u\<in>set us. animationDuration (?mid\<lparr>console := c\<rparr>) \<le> u - startTime ?tr"
      using assms(4) m(3) by simp
    from run_frames_ends [of "?mid\<lparr>console := c\<rparr>" ?tr us ocu, OF a2 d2 e2]
    show ?thesis by simp
  qed
  have same: "?mid\<lparr>console := console ?mid\<rparr> = ?mid" by simp
  have fin: "(camera_position (run_frames ocu us ?mid), oc_target (run_frames ocu us ?mid)) = ocu (PA, TA)"
    "\<not> isAnimating (run_frames ocu us ?mid)"
    using ends [of "console ?mid"] unfolding same by simp_all
  have preset: "fst (animateToPreset ocu tstartB tframeB nm ?mid) \<noteq> Pending \<and>
      (\<exists>c. snd (animateToPreset ocu tstartB tframeB nm ?mid) = ?mid\<lparr>console := c\<rparr>) \<and>
      (camera_position (run_frames ocu us (snd (animateToPreset ocu tstartB tframeB nm ?mid))),
       oc_target (run_frames ocu us (snd (animateToPreset ocu tstartB tframeB nm ?mid)))) = ocu (PA, TA) \<and>
      \<not> isAnimating (run_frames ocu us (snd (animateToPreset ocu tstartB tframeB nm ?mid)))" for nm
  proof -
    note w = animateToPreset_while_animating [OF m(2), of ocu tstartB tframeB nm]
    from w(2) obtain c where c: "snd (animateToPreset ocu tstartB tframeB nm ?mid) = ?mid\<lparr>console := c\<rparr>"
      by blast
    show ?thesis using w(1) c ends [of c] by auto
  qed
  have exact: "camera_position (run_frames ocu us ?mid) = PA \<and> oc_target (run_frames ocu us ?mid) = TA"
    if "ocu (PA, TA) = (PA, TA)"
    using fin(1) that by simp
  show ?thesis
    unfolding Let_def req snd_conv
    using m(1,2,4) preset fin exact by blast
qed

theorem request_during_transition_is_ignored_witness:
  "camera_position (run_frames at_rest [1000]
       (snd (animateToPosition at_rest 0 0 (Vec3 0 20 50) (Vec3 0 0 0) demo_controller)))
     = Vec3 0 35 75 \<and>
   animateToPosition at_rest 1000 1000 (Vec3 45 10 20) (Vec3 45 0 0)
       (run_frames at_rest [1000]
          (snd (animateToPosition at_rest 0 0 (Vec3 0 20 50) (Vec3 0 0 0) demo_controller)))
     = (Resolved, run_frames at_rest [1000]
          (snd (animateToPosition at_rest 0 0 (Vec3 0 20 50) (Vec3 0 0 0) demo_controller))) \<and>
   camera_position (run_frames at_rest [1500, 2500]
       (snd (animateToPreset at_rest 1000 1000 ''earth''
          (run_frames at_rest [1000]
             (snd (animateToPosition at_rest 0 0 (Vec3 0 20 50) (Vec3 0 0 0) demo_controller))))))
     = Vec3 0 20 50 \<and>
   camera_position (run_frames at_rest [1500, 2500]
       (snd (animateToPosition at_rest 1000 1000 (Vec3 45 10 20) (Vec3 45 0 0)
          (run_frames at_rest [1000]
             (snd (animateToPosition at_rest 0 0 (Vec3 0 20 50) (Vec3 0 0 0) demo_controller))))))
     = Vec3 0 20 50"
proof -
  let ?mid = "run_frames at_rest [1000]
          (snd (animateToPosition at_rest 0 0 (Vec3 0 20 50) (Vec3 0 0 0) demo_controller))"
  have a: "\<not> isAnimating demo_controller" and d: "0 < animationDuration demo_controller"
    and f: "\<forall>t\<in>set (0 # [1000]). t - 0 < animationDuration demo_controller"
    and e: "\<exists>u\<in>set [1500, 2500]. animationDuration demo_controller \<le> u - 0"
    by simp_all
  note t = request_during_transition_is_ignored
         [where s = demo_controller and ocu = at_rest and PA = "Vec3 0 20 50" and TA = "Vec3 0 0 0"
            and tstart = 0 and tframe = 0 and ts = "[1000]" and us = "[1500, 2500]"
            and tstartB = 1000 and tframeB = 1000 and PB = "Vec3 45 10 20" and TB = "Vec3 45 0 0",
          OF a d f e, unfolded Let_def]
  have pose: "(camera_position ?mid, oc_target ?mid) = (Vec3 0 35 75, Vec3 0 0 0)"
    using t by (simp add: at_rest_def lerpVectors_def)
  have req: "animateToPosition at_rest 1000 1000 (Vec3 45 10 20) (Vec3 45 0 0) ?mid = (Resolved, ?mid)"
    using t by blast
  have pre: "(camera_position (run_frames at_rest [1500, 2500] (snd (animateToPreset at_rest 1000 1000 ''earth'' ?mid))),
              oc_target (run_frames at_rest [1500, 2500] (snd (animateToPreset at_rest 1000 1000 ''earth'' ?mid))))
             = at_rest (Vec3 0 20 50, Vec3 0 0 0)"
    using t by blast
  have pos: "(camera_position (run_frames at_rest [1500, 2500] (snd (animateToPosition at_rest 1000 1000 (Vec3 45 10 20) (Vec3 45 0 0) ?mid))),
              oc_target (run_frames at_rest [1500, 2500] (snd (animateToPosition at_rest 1000 1000 (Vec3 45 10 20) (Vec3 45 0 0) ?mid))))
             = at_rest (Vec3 0 20 50, Vec3 0 0 0)"
    using t by blast
  show ?thesis
    using pose req pre pos by (simp add: at_rest_def)
qed

section \<open>Following, presets\<close>

lemma updateWASDMovement_isAnimating:
  "updateWASDMovement im dt s = Inr s' \<Longrightarrow> isAnimating s' = isAnimating s"
  by (auto simp: updateWASDMovement_def Let_def split: option.splits if_splits)

lemma updateWASDMovement_followTarget:
  "updateWASDMovement im dt s = Inr s' \<Longrightarrow> followTarget s' = followTarget s"
  by (auto simp: updateWASDMovement_def Let_def split: option.splits if_splits)

lemma followObject_fields [simp]:
  "followTarget (followObject tgt off s) = Some tgt"
  "isAnimating (followObject tgt off s) = isAnimating s"
  "animation (followObject tgt off s) = animation s"
  "camera_position (followObject tgt off s) = camera_position s"
  "oc_target (followObject tgt off s) = oc_target s"
  by (simp_all add: followObject_def Let_def split: option.splits)

text \<open>
  Claim C2, as stated, fails.  From the constructor's state a transition is started and,
  half way through it, \<open>followObject\<close> is called: \<open>isAnimating\<close> stays true and the follow
  target is set, both at once, in a state the controller reaches.
\<close>

theorem follow_transition_exclusion_counterexample:
  "isAnimating demo_following \<and> followTarget demo_following = Some 1"
  by (simp add: demo_following_def demo_in_flight_simps)

text \<open>
  Claim C2, amended.  Starting a transition with \<open>animateToPosition\<close>, from a controller
  that is not animating, clears the follow target.  \<open>followObject\<close> sets the follow target and
  leaves \<open>isAnimating\<close> and the pending transition as they are, so both can hold at once.
  While \<open>isAnimating\<close> is true, \<open>update\<close> does not run the follow step: it is the free-fly
  step followed by the orbit controls' update.
\<close>

theorem follow_suspended_during_transition:
  "(\<not> isAnimating s \<longrightarrow>
      followTarget (snd (animateToPosition ocu tstart tframe P T s)) = None) \<and>
   followTarget (followObject tgt off s) = Some tgt \<and>
   isAnimating (followObject tgt off s) = isAnimating s \<and>
   animation (followObject tgt off s) = animation s \<and>
   (isAnimating s \<longrightarrow>
      update ocu worldPosition im dt s =
        (case (if wasdEnabled s \<and> im \<noteq> None then updateWASDMovement im dt s else Inr s) of
           Inl e \<Rightarrow> Inl e
         | Inr s1 \<Rightarrow> Inr (if controlMode s1 = ''orbit'' then orbitControls_update ocu s1 else s1)))"
proof (intro conjI impI)
  assume "\<not> isAnimating s"
  then show "followTarget (snd (animateToPosition ocu tstart tframe P T s)) = None"
    by (simp add: animateToPosition_idle)
next
  assume a: "isAnimating s"
  show "update ocu worldPosition im dt s =
        (case (if wasdEnabled s \<and> im \<noteq> None then updateWASDMovement im dt s else Inr s) of
           Inl e \<Rightarrow> Inl e
         | Inr s1 \<Rightarrow> Inr (if controlMode s1 = ''orbit'' then orbitControls_update ocu s1 else s1))"
  proof (cases "if wasdEnabled s \<and> im \<noteq> None then updateWASDMovement im dt s else Inr s")
    case (Inl e)
    then show ?thesis by (simp add: update_def)
  next
    case (Inr s1)
    then have "isAnimating s1"
      using a updateWASDMovement_isAnimating [of im dt s s1] by (auto split: if_splits)
    then show ?thesis using Inr by (simp add: update_def Let_def)
  qed
qed simp_all

theorem follow_suspended_during_transition_witness:
  "followTarget (snd (animateToPosition at_rest 0 0 (Vec3 0 20 50) (Vec3 0 0 0)
       (followObject 1 None demo_controller))) = None \<and>
   camera_position (projr (update at_rest (\<lambda>_. Vec3 45 0 0) None (1 / 60) demo_following))
     = Vec3 0 35 75"
proof -
  have a: "\<not> isAnimating (followObject 1 None demo_controller)" by simp
  have b: "isAnimating demo_following" by (simp add: demo_following_def demo_in_flight_simps)
  have one: "followTarget (snd (animateToPosition at_rest 0 0 (Vec3 0 20 50) (Vec3 0 0 0)
       (followObject 1 None demo_controller))) = None"
    using follow_suspended_during_transition
            [where s = "followObject 1 None demo_controller" and ocu = at_rest and tstart = 0
               and tframe = 0 and P = "Vec3 0 20 50" and T = "Vec3 0 0 0"] a
    by blast
  have "update at_rest (\<lambda>_. Vec3 45 0 0) None (1 / 60) demo_following =
        (case (if wasdEnabled demo_following \<and> (None :: input_manager option) \<noteq> None
               then updateWASDMovement None (1 / 60) demo_following else Inr demo_following) of
           Inl e \<Rightarrow> Inl e
         | Inr s1 \<Rightarrow> Inr (if controlMode s1 = ''orbit'' then orbitControls_update at_rest s1 else s1))"
    using follow_suspended_during_transition
            [where s = demo_following and ocu = at_rest and im = None and dt = "1 / 60"
               and worldPosition = "\<lambda>_. Vec3 45 0 0"] b
    by blast
  then have two: "camera_position (projr (update at_rest (\<lambda>_. Vec3 45 0 0) None (1 / 60) demo_following))
     = Vec3 0 35 75"
    by (simp add: demo_following_def demo_in_flight_simps at_rest_def)
  show ?thesis using one two by simp
qed

text \<open>
  A name that reads as \<open>undefined\<close>, stored neither in the object nor in what it
  inherits: \<open>animateToPreset\<close> only reports the warning.  The promise is resolved and the
  controller is as before but for the warning on the console.
\<close>

lemma animateToPreset_undefined_name:
  assumes "presets_get (presets s) presetName = Undefined"
  shows "animateToPreset ocu tstart tframe presetName s =
           (Resolved, s\<lparr>console := console s @ [Warn_preset_not_found presetName]\<rparr>)"
  using assms by (simp add: animateToPreset_def)

lemma presets_get_Undefined_iff:
  "presets_get ps nm = Undefined \<longleftrightarrow>
     ps nm = None \<and> nm \<notin> object_prototype_keys \<and>
     \<not> (ps ''__proto__'' \<noteq> None \<and> nm \<in> {''position'', ''target''})"
  by (simp add: presets_get_def split: option.splits)

lemma animateToPreset_moon:
  "animateToPreset at_rest 0 0 ''moon'' demo_controller =
     (Resolved, demo_controller\<lparr>console := [Warn_preset_not_found ''moon'']\<rparr>)"
proof -
  have "presets_get (presets demo_controller) ''moon'' = Undefined"
    by (simp add: presets_get_Undefined_iff initial_presets_def object_prototype_keys_def)
  moreover have "console demo_controller = []"
    by (simp add: demo_controller_def CameraController_def)
  ultimately show ?thesis
    using animateToPreset_undefined_name [of demo_controller "''moon''" at_rest 0 0] by simp
qed

text \<open>
  Claim C8: the code at the failing input.  The name \<open>constructor\<close> is not a preset of the
  controller the constructor makes, yet \<open>this.presets['constructor']\<close> is the function every
  object inherits.  The call prints nothing and its promise is rejected, where the claim has
  a warning reported; the controller is untouched.
\<close>

theorem inherited_name_is_rejected_without_warning:
  "presets demo_controller ''constructor'' = None \<and>
   \<not> isAnimating demo_controller \<and>
   animateToPreset at_rest 0 0 ''constructor'' demo_controller = (Rejected, demo_controller) \<and>
   console (snd (animateToPreset at_rest 0 0 ''constructor'' demo_controller)) = []"
proof -
  have n: "presets demo_controller ''constructor'' = None"
    by (simp add: initial_presets_def)
  have g: "presets_get initial_presets ''constructor'' = Inherited"
    by (simp add: presets_get_def initial_presets_def object_prototype_keys_def)
  have r: "animateToPreset at_rest 0 0 ''constructor'' demo_controller = (Rejected, demo_controller)"
    by (simp add: animateToPreset_def g)
  have c: "console demo_controller = []"
    by (simp add: demo_controller_def CameraController_def)
  show ?thesis using n r c by simp
qed

section \<open>Free-fly movement\<close>

lemma getWASDState_missing [simp]:
  "getWASDState m ''forward'' = None" "getWASDState m ''backward'' = None"
  "getWASDState m ''left'' = None" "getWASDState m ''right'' = None"
  by (simp_all add: getWASDState_def)

lemma composeDirection_vertical:
  "composeDirection m q =
     (let isSpacePressed = isKeyPressed m ''Space'';
          isCtrlPressed = isKeyPressed m ''ControlLeft'' \<or> isKeyPressed m ''ControlRight'';
          d5 = (if isSpacePressed then vadd (Vec3 0 0 0) (Vec3 0 1 0) else Vec3 0 0 0)
      in if isCtrlPressed then vsub d5 (Vec3 0 1 0) else d5)"
  by (simp add: composeDirection_def Let_def truthy_def)

lemma vlength_nonneg [simp]: "0 \<le> vlength v"
  by (simp add: vlength_def)

lemma vlength_zero [simp]: "vlength (Vec3 0 0 0) = 0"
  by (simp add: vlength_def)

lemma updateWASDMovement_no_fault:
  "\<exists>s'. updateWASDMovement im dt s = Inr s'"
  by (cases im) (auto simp: updateWASDMovement_def Let_def normalize_def)

lemma updateWASDMovement_zero_direction:
  assumes "vlength (composeDirection m (camera_quaternion s)) = 0"
  shows "updateWASDMovement (Some m) dt s =
           Inr (s\<lparr>direction := composeDirection m (camera_quaternion s)\<rparr>)"
  using assms by (simp add: updateWASDMovement_def Let_def)

lemma composeDirection_no_keys:
  assumes "keys m \<inter> direction_keys = {}"
  shows "composeDirection m q = Vec3 0 0 0"
proof -
  from assms have "''Space'' \<notin> keys m" "''ControlLeft'' \<notin> keys m" "''ControlRight'' \<notin> keys m"
    by (auto simp: direction_keys_def)
  then show ?thesis by (simp add: composeDirection_vertical isKeyPressed_def)
qed

text \<open>
  Claim C9.  The free-fly step never faults, whatever the input.  When the composed
  direction has length zero the step only stores that direction: camera position and target
  are unchanged and nothing is normalized.  With none of the direction keys held the
  composed direction is the zero vector.
\<close>

theorem zero_direction_is_no_movement:
  "(\<exists>s'. updateWASDMovement im dt s = Inr s') \<and>
   (\<forall>m. im = Some m \<and> vlength (composeDirection m (camera_quaternion s)) = 0 \<longrightarrow>
        updateWASDMovement im dt s =
          Inr (s\<lparr>direction := composeDirection m (camera_quaternion s)\<rparr>) \<and>
        camera_position (projr (updateWASDMovement im dt s)) = camera_position s \<and>
        oc_target (projr (updateWASDMovement im dt s)) = oc_target s) \<and>
   (\<forall>m. im = Some m \<and> keys m \<inter> direction_keys = {} \<longrightarrow>
        composeDirection m (camera_quaternion s) = Vec3 0 0 0 \<and>
        vlength (composeDirection m (camera_quaternion s)) = 0)"
proof (intro conjI allI impI)
  show "\<exists>s'. updateWASDMovement im dt s = Inr s'" by (rule updateWASDMovement_no_fault)
next
  fix m assume h: "im = Some m \<and> vlength (composeDirection m (camera_quaternion s)) = 0"
  then have r: "updateWASDMovement im dt s =
          Inr (s\<lparr>direction := composeDirection m (camera_quaternion s)\<rparr>)"
    using updateWASDMovement_zero_direction [of m s dt] by simp
  show "updateWASDMovement im dt s =
          Inr (s\<lparr>direction := composeDirection m (camera_quaternion s)\<rparr>)" by (rule r)
  show "camera_position (projr (updateWASDMovement im dt s)) = camera_position s"
    unfolding r by simp
  show "oc_target (projr (updateWASDMovement im dt s)) = oc_target s"
    unfolding r by simp
next
  fix m assume h: "im = Some m \<and> keys m \<inter> direction_keys = {}"
  then show "composeDirection m (camera_quaternion s) = Vec3 0 0 0"
    by (simp add: composeDirection_no_keys)
  then show "vlength (composeDirection m (camera_quaternion s)) = 0" by simp
qed

theorem zero_direction_is_no_movement_witness:
  "updateWASDMovement (Some \<lparr>keys = {''ShiftLeft''}\<rparr>) (1 / 60) demo_controller = Inr demo_controller \<and>
   updateWASDMovement (Some \<lparr>keys = {''Space'', ''ControlLeft''}\<rparr>) (1 / 60) demo_controller
     = Inr demo_controller"
proof -
  have d: "direction demo_controller = Vec3 0 0 0"
    by (simp add: demo_controller_def CameraController_def)
  have k: "Some \<lparr>keys = {''ShiftLeft''}\<rparr> = Some \<lparr>keys = {''ShiftLeft''}\<rparr> \<and>
           keys \<lparr>keys = {''ShiftLeft''}\<rparr> \<inter> direction_keys = {}"
    by (simp add: direction_keys_def)
  note t1 = zero_direction_is_no_movement
              [where im = "Some \<lparr>keys = {''ShiftLeft''}\<rparr>" and dt = "1 / 60" and s = demo_controller]
  from t1 k have z1: "composeDirection \<lparr>keys = {''ShiftLeft''}\<rparr> (camera_quaternion demo_controller) = Vec3 0 0 0"
    and l1: "vlength (composeDirection \<lparr>keys = {''ShiftLeft''}\<rparr> (camera_quaternion demo_controller)) = 0"
    by blast+
  from t1 l1 have "updateWASDMovement (Some \<lparr>keys = {''ShiftLeft''}\<rparr>) (1 / 60) demo_controller =
      Inr (demo_controller\<lparr>direction := composeDirection \<lparr>keys = {''ShiftLeft''}\<rparr> (camera_quaternion demo_controller)\<rparr>)"
    by blast
  then have one: "updateWASDMovement (Some \<lparr>keys = {''ShiftLeft''}\<rparr>) (1 / 60) demo_controller = Inr demo_controller"
    unfolding z1 using d by simp
  have z2: "composeDirection \<lparr>keys = {''Space'', ''ControlLeft''}\<rparr> (camera_quaternion demo_controller) = Vec3 0 0 0"
    by (simp add: composeDirection_vertical isKeyPressed_def vadd_def vsub_def)
  note t2 = zero_direction_is_no_movement
              [where im = "Some \<lparr>keys = {''Space'', ''ControlLeft''}\<rparr>" and dt = "1 / 60" and s = demo_controller]
  from t2 z2 have "updateWASDMovement (Some \<lparr>keys = {''Space'', ''ControlLeft''}\<rparr>) (1 / 60) demo_controller =
      Inr (demo_controller\<lparr>direction := composeDirection \<lparr>keys = {''Space'', ''ControlLeft''}\<rparr> (camera_quaternion demo_controller)\<rparr>)"
    by simp
  then have two: "updateWASDMovement (Some \<lparr>keys = {''Space'', ''ControlLeft''}\<rparr>) (1 / 60) demo_controller = Inr demo_controller"
    unfolding z2 using d by simp
  show ?thesis using one two by simp
qed

text \<open>
  Claim C3: the code at the failing input.  With only W held, in orbit mode, the step
  composes the zero direction and returns the controller as it was, camera position and
  target included; the claimed displacement, the camera's forward vector scaled by
  \<open>moveSpeed \<cdot> deltaTime\<close>, is \<open>(0, 0, - 5/6)\<close>.  \<open>getWASDState\<close> returns an object with the
  properties \<open>w\<close>, \<open>a\<close>, \<open>s\<close>, \<open>d\<close>, while \<open>updateWASDMovement\<close> reads \<open>forward\<close>, \<open>backward\<close>,
  \<open>left\<close>, \<open>right\<close>, which that object never has.
\<close>

theorem held_W_key_moves_nothing:
  "controlMode demo_controller = ''orbit'' \<and> wasdEnabled demo_controller \<and>
   isKeyPressed holding_W ''KeyW'' \<and>
   updateWASDMovement (Some holding_W) (1 / 60) demo_controller = Inr demo_controller \<and>
   multiplyScalar (applyQuaternion (Vec3 0 0 (- 1)) (camera_quaternion demo_controller))
      (moveSpeed demo_controller * (1 / 60)) = Vec3 0 0 (- 5 / 6) \<and>
   vlength (applyQuaternion (Vec3 0 0 (- 1)) (camera_quaternion demo_controller)) = 1"
proof -
  have z: "composeDirection holding_W (camera_quaternion demo_controller) = Vec3 0 0 0"
    by (simp add: composeDirection_vertical isKeyPressed_def holding_W_def)
  have d: "direction demo_controller = Vec3 0 0 0"
    by (simp add: demo_controller_def CameraController_def)
  have "updateWASDMovement (Some holding_W) (1 / 60) demo_controller =
          Inr (demo_controller\<lparr>direction := Vec3 0 0 0\<rparr>)"
    using updateWASDMovement_zero_direction [of holding_W demo_controller "1 / 60"] z by simp
  then have r: "updateWASDMovement (Some holding_W) (1 / 60) demo_controller = Inr demo_controller"
    using d by simp
  have f: "applyQuaternion (Vec3 0 0 (- 1)) (camera_quaternion demo_controller) = Vec3 0 0 (- 1)"
    by (simp add: applyQuaternion_def demo_controller_def CameraController_def)
  show ?thesis
    unfolding f r
    by (simp add: demo_controller_def CameraController_def isKeyPressed_def holding_W_def
        multiplyScalar_def vlength_def)
qed

section \<open>Picking and selection\<close>

lemma setSelected_fields [simp]:
  "isSelected (setSelected b p) = b" "mesh (setSelected b p) = mesh p"
  by (simp_all add: setSelected_def Let_def split: option.splits)

lemma find_planet_Some:
  assumes "find_planet obj ps = Some i"
  shows "i < length ps" and "mesh (ps ! i) = obj"
  using assms by (auto simp: find_planet_def find_Some_iff)

lemma call_setSelected_fields [simp]:
  "length (planets (call_setSelected i b sc)) = length (planets sc)"
  "selectedPlanet (call_setSelected i b sc) = selectedPlanet sc"
  "camera_set (call_setSelected i b sc) = camera_set sc"
  "selection_calls (call_setSelected i b sc) = selection_calls sc @ [(i, b)]"
  by (simp_all add: call_setSelected_def)

lemma selected_planets_call_True:
  "i < length (planets sc) \<Longrightarrow>
   selected_planets (call_setSelected i True sc) = insert i (selected_planets sc)"
  by (auto simp: selected_planets_def call_setSelected_def nth_list_update)

lemma isSelected_after_deselect:
  "x < length ps \<Longrightarrow>
   isSelected (ps[i := setSelected False (ps ! i)] ! x) \<longleftrightarrow> isSelected (ps ! x) \<and> x \<noteq> i"
  by (cases "x = i") simp_all

lemma selected_planets_call_False:
  "selected_planets (call_setSelected i False sc) = selected_planets sc - {i}"
  by (auto simp: selected_planets_def call_setSelected_def isSelected_after_deselect)

lemma selected_planets_cong:
  "planets sc' = planets sc \<Longrightarrow> selected_planets sc' = selected_planets sc"
  by (simp add: selected_planets_def)

lemma deselectPlanet_effect:
  assumes "selection_ok sc"
  shows "selectedPlanet (deselectPlanet sc) = None"
    and "selected_planets (deselectPlanet sc) = {}"
    and "length (planets (deselectPlanet sc)) = length (planets sc)"
    and "selection_calls (deselectPlanet sc) =
           selection_calls sc @ (case selectedPlanet sc of Some j \<Rightarrow> [(j, False)] | None \<Rightarrow> [])"
    and "camera_set (deselectPlanet sc) = camera_set sc"
proof -
  show "selectedPlanet (deselectPlanet sc) = None"
    by (simp add: deselectPlanet_def hidePlanetInfo_def split: option.splits)
  show "selected_planets (deselectPlanet sc) = {}"
  proof (cases "selectedPlanet sc")
    case None
    then show ?thesis
      using assms by (simp add: deselectPlanet_def hidePlanetInfo_def selection_ok_def
          selected_planets_def)
  next
    case (Some j)
    then have sub: "selected_planets sc \<subseteq> {j}" using assms by (simp add: selection_ok_def)
    have "selected_planets (deselectPlanet sc) = selected_planets (call_setSelected j False sc)"
      using Some by (simp add: deselectPlanet_def hidePlanetInfo_def selected_planets_def)
    then show ?thesis using sub by (auto simp: selected_planets_call_False)
  qed
  show "length (planets (deselectPlanet sc)) = length (planets sc)"
    by (simp add: deselectPlanet_def hidePlanetInfo_def split: option.splits)
  show "selection_calls (deselectPlanet sc) =
           selection_calls sc @ (case selectedPlanet sc of Some j \<Rightarrow> [(j, False)] | None \<Rightarrow> [])"
    by (simp add: deselectPlanet_def hidePlanetInfo_def split: option.splits)
  show "camera_set (deselectPlanet sc) = camera_set sc"
    by (simp add: deselectPlanet_def hidePlanetInfo_def split: option.splits)
qed

lemma selectPlanet_effect:
  assumes "selection_ok sc" and "i < length (planets sc)"
  shows "selectedPlanet (selectPlanet i sc) = Some i"
    and "selected_planets (selectPlanet i sc) = {i}"
    and "length (planets (selectPlanet i sc)) = length (planets sc)"
    and "selection_calls (selectPlanet i sc) =
           selection_calls sc @ (case selectedPlanet sc of Some j \<Rightarrow> [(j, False)] | None \<Rightarrow> [])
             @ [(i, True)]"
proof -
  let ?sc2 = "(deselectPlanet sc)\<lparr>selectedPlanet := Some i\<rparr>"
  note d = deselectPlanet_effect [OF assms(1)]
  have s: "selectPlanet i sc = showPlanetInfo i (call_setSelected i True ?sc2)"
    by (simp add: selectPlanet_def Let_def)
  have len: "i < length (planets ?sc2)" using d(3) assms(2) by simp
  have e: "selected_planets ?sc2 = {}"
    using d(2) selected_planets_cong [of ?sc2 "deselectPlanet sc"] by simp
  show "selectedPlanet (selectPlanet i sc) = Some i"
    unfolding s by (simp add: showPlanetInfo_def)
  have "selected_planets (selectPlanet i sc) = selected_planets (call_setSelected i True ?sc2)"
    unfolding s by (simp add: showPlanetInfo_def selected_planets_def)
  then show "selected_planets (selectPlanet i sc) = {i}"
    using selected_planets_call_True [OF len] e by simp
  show "length (planets (selectPlanet i sc)) = length (planets sc)"
    unfolding s using d(3) by (simp add: showPlanetInfo_def)
  show "selection_calls (selectPlanet i sc) =
           selection_calls sc @ (case selectedPlanet sc of Some j \<Rightarrow> [(j, False)] | None \<Rightarrow> [])
             @ [(i, True)]"
    unfolding s using d(4) by (simp add: showPlanetInfo_def)
qed

lemma selection_ok_mouse [simp]: "selection_ok (sc\<lparr>mouse := m\<rparr>) = selection_ok sc"
  by (simp add: selection_ok_def selected_planets_def split: option.splits)

lemma selection_ok_card:
  assumes "selection_ok sc"
  shows "card (selected_planets sc) \<le> 1"
proof (cases "selectedPlanet sc")
  case None
  then show ?thesis using assms by (simp add: selection_ok_def)
next
  case (Some i)
  then have "selected_planets sc \<subseteq> {i}" using assms by (simp add: selection_ok_def)
  then have "card (selected_planets sc) \<le> card {i}" by (intro card_mono) simp_all
  then show ?thesis by simp
qed

lemma onMouseClick_cases:
  assumes "camera_set sc"
  shows "onMouseClick ray client inner sc =
           (case ray (ndc client inner) (map mesh (planets sc)) of
              [] \<Rightarrow> deselectPlanet (sc\<lparr>mouse := ndc client inner\<rparr>)
            | h # _ \<Rightarrow>
                (case find_planet (object h) (planets sc) of
                   Some i \<Rightarrow> selectPlanet i (sc\<lparr>mouse := ndc client inner\<rparr>)
                 | None \<Rightarrow> sc\<lparr>mouse := ndc client inner\<rparr>))"
  using assms by (simp add: onMouseClick_def Let_def split: list.splits)

lemma find_planet_None_iff:
  "find_planet obj ps = None \<longleftrightarrow> obj \<notin> set (map mesh ps)"
proof
  assume "find_planet obj ps = None"
  then have "\<forall>i<length ps. mesh (ps ! i) \<noteq> obj"
    by (auto simp: find_planet_def find_None_iff)
  then show "obj \<notin> set (map mesh ps)" by (auto simp: in_set_conv_nth)
next
  assume "obj \<notin> set (map mesh ps)"
  then have "\<forall>i<length ps. mesh (ps ! i) \<noteq> obj" by (metis length_map nth_map nth_mem)
  then show "find_planet obj ps = None" by (auto simp: find_planet_def find_None_iff)
qed

lemma find_planet_two:
  "find_planet obj [p, q] =
     (if mesh p = obj then Some 0 else if mesh q = obj then Some 1 else None)"
proof -
  have up: "[0..<length [p, q]] = [0, Suc 0]" by (simp add: upt_rec)
  show ?thesis unfolding find_planet_def up by simp
qed

lemma small_scene_fields [simp]:
  "planets (setCamera small_scene) = [the_sun, the_earth]"
  "selectedPlanet (setCamera small_scene) = None"
  "selection_calls (setCamera small_scene) = []"
  "camera_set (setCamera small_scene)"
  "mesh the_sun = 0" "mesh the_earth = 1" "selectionGlow the_earth = 11"
  "\<not> isSelected the_sun" "\<not> isSelected the_earth"
  by (simp_all add: setCamera_def small_scene_def new_SpaceScene_def the_sun_def the_earth_def
      new_Planet_def)

lemma earth_selected_fields:
  "selectedPlanet earth_selected = Some 1" "camera_set earth_selected"
  "map mesh (planets earth_selected) = [0, 1]"
proof -
  have e: "earth_selected = selectPlanet 1 (setCamera small_scene\<lparr>mouse := ndc (400, 300) (800, 600)\<rparr>)"
    by (simp add: earth_selected_def onMouseClick_cases ray_hits_def find_planet_two)
  show "selectedPlanet earth_selected = Some 1" "camera_set earth_selected"
    "map mesh (planets earth_selected) = [0, 1]"
    unfolding e
    by (simp_all add: selectPlanet_def Let_def showPlanetInfo_def call_setSelected_def
        deselectPlanet_def hidePlanetInfo_def)
qed

lemma Planet_update_isSelected [simp]: "isSelected (Planet_update dt t p) = isSelected p"
  by (simp add: Planet_update_def updateSunEffects_def Let_def split: option.splits)

lemma selection_ok_update:
  assumes "selection_ok sc"
  shows "selection_ok (SpaceScene_update dt sc)"
proof -
  have "selected_planets (SpaceScene_update dt sc) = selected_planets sc"
    by (auto simp: selected_planets_def SpaceScene_update_def Let_def)
  moreover have "selectedPlanet (SpaceScene_update dt sc) = selectedPlanet sc"
    "length (planets (SpaceScene_update dt sc)) = length (planets sc)"
    by (simp_all add: SpaceScene_update_def Let_def)
  ultimately show ?thesis using assms by (simp add: selection_ok_def split: option.splits)
qed

text \<open>
  Claim C7: the code at the failing input.  In the two-body scene the third planet is
  selected.  A click whose ray meets only that planet's glow sphere, a child of its mesh and
  no planet's mesh, leaves it selected, where the claim has the selection cleared.  A click
  whose ray meets that glow first and the star's mesh behind it also leaves it selected,
  where the claim has the star, the only planet whose mesh is intersected, selected.
\<close>

theorem click_through_glow_changes_nothing:
  "selectedPlanet earth_selected = Some 1 \<and>
   find_planet (selectionGlow the_earth) (planets earth_selected) = None \<and>
   find_planet (mesh the_sun) (planets earth_selected) = Some 0 \<and>
   selectedPlanet
     (onMouseClick (ray_hits [\<lparr>distance = 30, object = selectionGlow the_earth\<rparr>])
        (10, 10) (800, 600) earth_selected) = Some 1 \<and>
   selectedPlanet
     (onMouseClick (ray_hits [\<lparr>distance = 30, object = selectionGlow the_earth\<rparr>,
                              \<lparr>distance = 90, object = mesh the_sun\<rparr>])
        (10, 10) (800, 600) earth_selected) = Some 1"
proof -
  note e = earth_selected_fields
  have ps: "planets earth_selected = [planets earth_selected ! 0, planets earth_selected ! 1]"
    using arg_cong [OF e(3), of length] by (simp add: list_eq_iff_nth_eq nth_Cons split: nat.splits)
  have m: "mesh (planets earth_selected ! 0) = 0" "mesh (planets earth_selected ! 1) = 1"
    using arg_cong [OF e(3), of "\<lambda>xs. xs ! 0"] arg_cong [OF e(3), of "\<lambda>xs. xs ! 1"]
      arg_cong [OF e(3), of length]
    by simp_all
  have g: "find_planet (selectionGlow the_earth) (planets earth_selected) = None"
    by (simp add: find_planet_None_iff e)
  have s: "find_planet (mesh the_sun) (planets earth_selected) = Some 0"
    by (subst ps) (simp add: find_planet_two m)
  show ?thesis
    using e(1) g s by (simp add: onMouseClick_cases [OF e(2)] ray_hits_def)
qed

text \<open>
  What a click does, case by case, with the camera set.  If the ray meets nothing the
  selection is cleared.  If the nearest object met is the mesh of a planet, that planet
  becomes the sole selected planet, and \<open>setSelected(false)\<close> on the planet selected before
  comes before \<open>setSelected(true)\<close> on the new one.  If the nearest object met is not the mesh
  of any planet, only the pointer coordinate changes.  In every case at most one planet is
  selected afterwards, and a logic step keeps it so.
\<close>

lemma onMouseClick_by_cases:
  assumes "camera_set sc" and "selection_ok sc"
  shows "(ray (ndc client inner) (map mesh (planets sc)) = [] \<longrightarrow>
            selectedPlanet (onMouseClick ray client inner sc) = None \<and>
            selected_planets (onMouseClick ray client inner sc) = {}) \<and>
         (\<forall>h rest i. ray (ndc client inner) (map mesh (planets sc)) = h # rest \<and>
               find_planet (object h) (planets sc) = Some i \<longrightarrow>
            i < length (planets sc) \<and> mesh (planets sc ! i) = object h \<and>
            selectedPlanet (onMouseClick ray client inner sc) = Some i \<and>
            selected_planets (onMouseClick ray client inner sc) = {i} \<and>
            selection_calls (onMouseClick ray client inner sc) =
              selection_calls sc @
              (case selectedPlanet sc of Some j \<Rightarrow> [(j, False)] | None \<Rightarrow> []) @ [(i, True)]) \<and>
         (\<forall>h rest. ray (ndc client inner) (map mesh (planets sc)) = h # rest \<and>
               object h \<in> set (map mesh (planets sc)) \<longrightarrow>
            find_planet (object h) (planets sc) \<noteq> None) \<and>
         (\<forall>h rest. ray (ndc client inner) (map mesh (planets sc)) = h # rest \<and>
               object h \<notin> set (map mesh (planets sc)) \<longrightarrow>
            onMouseClick ray client inner sc = sc\<lparr>mouse := ndc client inner\<rparr>) \<and>
         selection_ok (onMouseClick ray client inner sc) \<and>
         card (selected_planets (onMouseClick ray client inner sc)) \<le> 1 \<and>
         selection_ok (SpaceScene_update dt (onMouseClick ray client inner sc))"
proof -
  let ?sc1 = "sc\<lparr>mouse := ndc client inner\<rparr>"
  let ?hits = "ray (ndc client inner) (map mesh (planets sc))"
  let ?out = "onMouseClick ray client inner sc"
  note c = onMouseClick_cases [OF assms(1), of ray client inner]
  have ok1: "selection_ok ?sc1" using assms(2) by simp
  have empty: "selectedPlanet ?out = None \<and> selected_planets ?out = {}" if "?hits = []"
    using that deselectPlanet_effect(1,2) [OF ok1] by (simp add: c)
  have found: "i < length (planets sc) \<and> mesh (planets sc ! i) = object h \<and>
               selectedPlanet ?out = Some i \<and> selected_planets ?out = {i} \<and>
               selection_calls ?out = selection_calls sc @
                 (case selectedPlanet sc of Some j \<Rightarrow> [(j, False)] | None \<Rightarrow> []) @ [(i, True)]"
    if "?hits = h # rest" "find_planet (object h) (planets sc) = Some i" for h rest i
  proof -
    have i: "i < length (planets ?sc1)" using find_planet_Some(1) [OF that(2)] by simp
    have o: "?out = selectPlanet i ?sc1" using that by (simp add: c)
    show ?thesis
      unfolding o using selectPlanet_effect [OF ok1 i] find_planet_Some [OF that(2)] by simp
  qed
  have missed: "?out = ?sc1" if "?hits = h # rest" "object h \<notin> set (map mesh (planets sc))" for h rest
    using that find_planet_None_iff [of "object h" "planets sc"] by (simp add: c)
  have ok: "selection_ok ?out"
  proof (cases ?hits)
    case Nil
    then have "selectedPlanet ?out = None" "selected_planets ?out = {}" using empty by simp_all
    then show ?thesis by (simp add: selection_ok_def)
  next
    case (Cons h rest)
    show ?thesis
    proof (cases "find_planet (object h) (planets sc)")
      case None
      then have "?out = ?sc1" using Cons by (simp add: c)
      then show ?thesis using ok1 by simp
    next
      case (Some i)
      have i: "i < length (planets ?sc1)" using find_planet_Some(1) [OF Some] by simp
      have o: "?out = selectPlanet i ?sc1" using Cons Some by (simp add: c)
      show ?thesis
        unfolding o using selectPlanet_effect [OF ok1 i] i by (simp add: selection_ok_def)
    qed
  qed
  show ?thesis
    using empty found missed ok selection_ok_card [OF ok] selection_ok_update [OF ok]
      find_planet_None_iff
    by (intro conjI allI impI) blast+
qed

lemma onMouseClick_by_cases_example:
  "selectedPlanet earth_selected = Some 1 \<and> selected_planets earth_selected = {1} \<and>
   selection_calls earth_selected = [(1, True)] \<and>
   selectedPlanet (onMouseClick (ray_hits []) (10, 10) (800, 600) earth_selected) = None \<and>
   onMouseClick (ray_hits [\<lparr>distance = 30, object = 11\<rparr>]) (10, 10) (800, 600)
       (setCamera small_scene) = (setCamera small_scene)\<lparr>mouse := ndc (10, 10) (800, 600)\<rparr> \<and>
   card (selected_planets earth_selected) \<le> 1"
proof -
  let ?sc = "setCamera small_scene"
  have cam: "camera_set ?sc" by simp
  have ok: "selection_ok ?sc"
    by (auto simp: selection_ok_def selected_planets_def nth_Cons split: nat.splits)
  note t1 = onMouseClick_by_cases
              [where sc = ?sc and ray = "ray_hits [\<lparr>distance = 40, object = mesh the_earth\<rparr>]"
                 and client = "(400, 300)" and inner = "(800, 600)", OF cam ok]
  have h1: "ray_hits [\<lparr>distance = 40, object = mesh the_earth\<rparr>] (ndc (400, 300) (800, 600))
              (map mesh (planets ?sc)) = \<lparr>distance = 40, object = mesh the_earth\<rparr> # [] \<and>
            find_planet (object \<lparr>distance = 40, object = mesh the_earth\<rparr>) (planets ?sc) = Some 1"
    by (simp add: ray_hits_def find_planet_two)
  from t1 h1 have a: "selectedPlanet earth_selected = Some 1 \<and> selected_planets earth_selected = {1} \<and>
      selection_calls earth_selected = selection_calls ?sc @
              (case selectedPlanet ?sc of Some j \<Rightarrow> [(j, False)] | None \<Rightarrow> []) @ [(1, True)]"
    unfolding earth_selected_def by blast
  from t1 have ok2: "selection_ok earth_selected" and c2: "card (selected_planets earth_selected) \<le> 1"
    unfolding earth_selected_def by blast+
  note t2 = onMouseClick_by_cases
              [where sc = earth_selected and ray = "ray_hits []"
                 and client = "(10, 10)" and inner = "(800, 600)", OF earth_selected_fields(2) ok2]
  have b: "selectedPlanet (onMouseClick (ray_hits []) (10, 10) (800, 600) earth_selected) = None"
    using t2 by (simp add: ray_hits_def)
  note t3 = onMouseClick_by_cases
              [where sc = ?sc and ray = "ray_hits [\<lparr>distance = 30, object = 11\<rparr>]"
                 and client = "(10, 10)" and inner = "(800, 600)", OF cam ok]
  have h3: "ray_hits [\<lparr>distance = 30, object = 11\<rparr>] (ndc (10, 10) (800, 600))
              (map mesh (planets ?sc)) = \<lparr>distance = 30, object = 11\<rparr> # [] \<and>
            object \<lparr>distance = 30, object = 11\<rparr> \<notin> set (map mesh (planets ?sc))"
    by (simp add: ray_hits_def)
  from t3 h3 have c: "onMouseClick (ray_hits [\<lparr>distance = 30, object = 11\<rparr>]) (10, 10) (800, 600) ?sc
       = ?sc\<lparr>mouse := ndc (10, 10) (800, 600)\<rparr>"
    by blast
  show ?thesis using a b c c2 by simp
qed

end
